theory Spec2Isabelle
  imports Complex_Main
begin

section \<open>JavaScript values\<close>

text \<open>
  A JavaScript number is an IEEE double. It is modelled by its value: not-a-number, the
  two infinities, or a finite real (the two zeros are one value, as \<open>===\<close> sees them).
  Rounding is not modelled, so the operations of the runtime that need it (parsing a
  string with \<open>Number\<close>, the \<open>+\<close> of two numbers, printing a number inside a
  template literal) are parameters of the development, collected in \<open>runtime\<close>.
\<close>

datatype jsnum = NaN | PosInf | NegInf | Fin real

fun isNaN :: "jsnum \<Rightarrow> bool" where
  "isNaN NaN = True"
| "isNaN _ = False"

text \<open>\<open>a === b\<close> on numbers: \<open>NaN\<close> is equal to nothing, not even to itself.\<close>

fun strict_eq :: "jsnum \<Rightarrow> jsnum \<Rightarrow> bool" where
  "strict_eq NaN _ = False"
| "strict_eq _ NaN = False"
| "strict_eq a b = (a = b)"

record runtime =
  Number :: "string \<Rightarrow> jsnum"
  Plus :: "jsnum \<Rightarrow> jsnum \<Rightarrow> jsnum"
  ToString :: "jsnum \<Rightarrow> string"

text \<open>\<open>xs[i]\<close> on an array: \<open>undefined\<close> (here \<open>None\<close>) beyond the end.\<close>

definition js_index :: "'a list \<Rightarrow> nat \<Rightarrow> 'a option" where
  "js_index xs i = (if i < length xs then Some (xs ! i) else None)"

text \<open>\<open>s.indexOf(p) !== -1\<close>: the pattern occurs somewhere in the string.\<close>

fun occurs_in :: "string \<Rightarrow> string \<Rightarrow> bool" where
  "occurs_in p [] = (p = [])"
| "occurs_in p (c # cs) = (take (length p) (c # cs) = p \<or> occurs_in p cs)"

text \<open>A thrown or returned error value; only its identity matters.\<close>

datatype error = Error string

section \<open>The submission form (TeamPage)\<close>

subsection \<open>Component state and the outside world\<close>

text \<open>
  The six \<open>useState\<close> cells of the component. \<open>'f\<close> is the type of \<open>File\<close> objects.
\<close>

record 'f state =
  imageFile :: "'f option"
  imagePreview :: string
  mapNumber :: jsnum
  placement :: jsnum
  playerKills :: "string list"
  submitting :: bool

definition initial :: "'f state" where
  "initial = \<lparr> imageFile = None, imagePreview = '''', mapNumber = Fin 1, placement = Fin 0,
     playerKills = ['''', '''', ''''], submitting = False \<rparr>"

text \<open>
  The object handed to \<open>supabase.from('submissions').insert\<close>. Its field
  \<open>placement\<close> is \<open>placement_of\<close> here, the state having a cell of that name.
\<close>

record submission =
  team_id :: jsnum
  map_number :: jsnum
  player1_kills :: "jsnum option"
  player2_kills :: "jsnum option"
  player3_kills :: "jsnum option"
  placement_of :: jsnum
  scoreboard_image_url :: string

text \<open>
  What the handlers do to the world outside the component, in program order:
  alerts, console output, \<open>preventDefault\<close> on the event, the calls of the image
  library and those on the storage and database client (bucket or table name first).
  The calls of \<open>setSubmitting\<close> are logged with them, to tell when the flag is
  written.
\<close>

datatype 'f event =
    Alert string
  | ConsoleError string error
  | PreventDefault
  | SetSubmitting bool
  | ImageCompression 'f
  | StorageUpload string string 'f bool
  | StorageGetPublicUrl string string
  | TableInsert string submission

text \<open>
  An awaited client call rejects, or resolves to a response whose \<open>error\<close> field is
  set or null.
\<close>

datatype outcome = Rejects error | Resolves "error option"

text \<open>
  What \<open>const { error } = await call; if (error) throw error;\<close> throws on an answer.
\<close>

fun thrown :: "outcome \<Rightarrow> error option" where
  "thrown (Rejects err) = Some err"
| "thrown (Resolves (Some err)) = Some err"
| "thrown (Resolves None) = None"

text \<open>
  The image library and the browser: \<open>imageCompression(file, compressionOptions)\<close>
  resolves to a file or rejects; \<open>URL.createObjectURL\<close> names a file.
\<close>

record 'f browser =
  imageCompression :: "'f \<Rightarrow> error + 'f"
  createObjectURL :: "'f \<Rightarrow> string"

text \<open>The storage and database client, as the responses it gives to each call.\<close>

record 'f backend =
  upload :: "string \<Rightarrow> 'f \<Rightarrow> outcome"
  getPublicUrl :: "string \<Rightarrow> string"
  insert :: "submission \<Rightarrow> outcome"

subsection \<open>Choosing and pasting an image\<close>

definition handleFileChange ::
  "'f browser \<Rightarrow> 'f list option \<Rightarrow> 'f state \<Rightarrow> 'f state \<times> 'f event list" where
  "handleFileChange br files s =
     (case (case files of None \<Rightarrow> None | Some fs \<Rightarrow> js_index fs 0) of
        None \<Rightarrow> (s, [])
      | Some file \<Rightarrow>
          (case imageCompression br file of
             Inr compressedFile \<Rightarrow>
               (s\<lparr>imageFile := Some compressedFile,
                   imagePreview := createObjectURL br compressedFile\<rparr>,
                [ImageCompression file])
           | Inl err \<Rightarrow>
               (s\<lparr>imageFile := Some file, imagePreview := createObjectURL br file\<rparr>,
                [ImageCompression file, ConsoleError ''Image compression failed:'' err])))"

definition processPastedImage ::
  "'f browser \<Rightarrow> 'f \<Rightarrow> 'f state \<Rightarrow> 'f state \<times> 'f event list" where
  "processPastedImage br file s =
     (case imageCompression br file of
        Inr compressedFile \<Rightarrow>
          (s\<lparr>imageFile := Some compressedFile,
              imagePreview := createObjectURL br compressedFile\<rparr>,
           [ImageCompression file])
      | Inl err \<Rightarrow>
          (s\<lparr>imageFile := Some file, imagePreview := createObjectURL br file\<rparr>,
           [ImageCompression file, ConsoleError ''Paste compression failed:'' err]))"

text \<open>A \<open>DataTransferItem\<close>: its MIME type and what \<open>getAsFile()\<close> returns.\<close>

record 'f item =
  item_type :: string
  getAsFile :: "'f option"

text \<open>The \<open>for\<close> loop of \<open>handleTextareaPaste\<close> over \<open>clipboardData.items\<close>.\<close>

fun textareaPasteItems ::
  "'f browser \<Rightarrow> 'f item list \<Rightarrow> 'f state \<Rightarrow> 'f state \<times> 'f event list" where
  "textareaPasteItems br [] s = (s, [])"
| "textareaPasteItems br (it # items) s =
     (if occurs_in ''image'' (item_type it) then
        (case getAsFile it of
           Some file \<Rightarrow>
             (let (s1, ev1) = processPastedImage br file s;
                  (s2, ev2) = textareaPasteItems br items s1
              in (s2, PreventDefault # ev1 @ ev2))
         | None \<Rightarrow> textareaPasteItems br items s)
      else textareaPasteItems br items s)"

definition handleTextareaPaste ::
  "'f browser \<Rightarrow> 'f item list option \<Rightarrow> 'f state \<Rightarrow> 'f state \<times> 'f event list" where
  "handleTextareaPaste br clipboardData s =
     (case clipboardData of None \<Rightarrow> (s, []) | Some items \<Rightarrow> textareaPasteItems br items s)"

text \<open>The loop of \<open>handleGlobalPaste\<close>: the same, without \<open>preventDefault\<close>.\<close>

fun globalPasteItems ::
  "'f browser \<Rightarrow> 'f item list \<Rightarrow> 'f state \<Rightarrow> 'f state \<times> 'f event list" where
  "globalPasteItems br [] s = (s, [])"
| "globalPasteItems br (it # items) s =
     (if occurs_in ''image'' (item_type it) then
        (case getAsFile it of
           Some file \<Rightarrow>
             (let (s1, ev1) = processPastedImage br file s;
                  (s2, ev2) = globalPasteItems br items s1
              in (s2, ev1 @ ev2))
         | None \<Rightarrow> globalPasteItems br items s)
      else globalPasteItems br items s)"

text \<open>
  \<open>activeIsTextarea\<close> is \<open>document.activeElement === pasteTextareaRef.current\<close>: the
  textarea's own handler has the paste then.
\<close>

definition handleGlobalPaste ::
  "'f browser \<Rightarrow> bool \<Rightarrow> 'f item list option \<Rightarrow> 'f state \<Rightarrow> 'f state \<times> 'f event list" where
  "handleGlobalPaste br activeIsTextarea clipboardData s =
     (if activeIsTextarea then (s, [])
      else case clipboardData of None \<Rightarrow> (s, []) | Some items \<Rightarrow> globalPasteItems br items s)"

text \<open>
  The files that a paste loop hands to \<open>processPastedImage\<close>, in order: those of the
  items whose type contains \<open>image\<close> and that have a file.
\<close>

fun image_files :: "'f item list \<Rightarrow> 'f list" where
  "image_files [] = []"
| "image_files (it # items) =
     (if occurs_in ''image'' (item_type it) then
        (case getAsFile it of
           Some file \<Rightarrow> file # image_files items
         | None \<Rightarrow> image_files items)
      else image_files items)"

text \<open>
  Each of these handlers waits for \<open>imageCompression\<close>, and the page goes on while it
  waits. \<open>after_compression\<close> is what \<open>handleFileChange\<close> and
  \<open>processPastedImage\<close> do once the compression has answered (the two differ in the
  console message only), and \<open>next_image\<close> is what a paste loop does until it next
  waits: it steps to the first item whose type contains \<open>image\<close> and that has a
  file, and keeps the items after it. Lemmas \<open>handleFileChange_pieces\<close>,
  \<open>processPastedImage_pieces\<close>, \<open>textareaPasteItems_pieces\<close> and
  \<open>globalPasteItems_pieces\<close> put the handlers above together from them.
\<close>

definition after_compression ::
  "string \<Rightarrow> 'f browser \<Rightarrow> 'f \<Rightarrow> 'f state \<Rightarrow> 'f state \<times> 'f event list" where
  "after_compression message br file s =
     (case imageCompression br file of
        Inr compressedFile \<Rightarrow>
          (s\<lparr>imageFile := Some compressedFile,
              imagePreview := createObjectURL br compressedFile\<rparr>, [])
      | Inl err \<Rightarrow>
          (s\<lparr>imageFile := Some file, imagePreview := createObjectURL br file\<rparr>,
           [ConsoleError message err]))"

fun next_image :: "'f item list \<Rightarrow> ('f \<times> 'f item list) option" where
  "next_image [] = None"
| "next_image (it # items) =
     (if occurs_in ''image'' (item_type it) then
        (case getAsFile it of
           Some file \<Rightarrow> Some (file, items)
         | None \<Rightarrow> next_image items)
      else next_image items)"

subsection \<open>Submitting\<close>

text \<open>\<open>playerKills.map(k => k === '' ? 0 : Number(k))\<close>\<close>

definition killsNums :: "runtime \<Rightarrow> string list \<Rightarrow> jsnum list" where
  "killsNums rt ks = map (\<lambda>k. if k = '''' then Fin 0 else Number rt k) ks"

text \<open>The template literal \<open>team${teamId}_map${mapNumber}_${Date.now()}.jpg\<close>.\<close>

definition fileNameOf :: "runtime \<Rightarrow> jsnum \<Rightarrow> jsnum \<Rightarrow> jsnum \<Rightarrow> string" where
  "fileNameOf rt teamId mapNo now =
     ''team'' @ ToString rt teamId @ ''_map'' @ ToString rt mapNo @ ''_'' @ ToString rt now @ ''.jpg''"

text \<open>
  \<open>handleSubmit\<close> is an async function with two awaits, so it runs in three pieces:
  up to the upload call, from the upload's answer to the insert call, and from the
  insert's answer to the end. What a later piece reads from the render it was created in
  (not from the live state) is kept in a \<open>closure\<close>.
\<close>

record 'f closure =
  c_imageFile :: 'f
  c_fileName :: string
  c_teamId :: jsnum
  c_mapNumber :: jsnum
  c_killsNums :: "jsnum list"
  c_placement :: jsnum

text \<open>Lines 93 to 114: validation, \<open>setSubmitting(true)\<close>, the upload call.\<close>

definition submit_begin ::
  "runtime \<Rightarrow> jsnum \<Rightarrow> jsnum \<Rightarrow> 'f state \<Rightarrow> 'f state \<times> 'f event list \<times> 'f closure option" where
  "submit_begin rt teamId now s =
     (case imageFile s of
        None \<Rightarrow> (s, [PreventDefault, Alert ''Please upload or paste a scoreboard image.''], None)
      | Some file \<Rightarrow>
          (let kn = killsNums rt (playerKills s) in
           if list_ex isNaN kn then
             (s, [PreventDefault, Alert ''Please enter valid numbers for player kills.''], None)
           else
             (let fileName = fileNameOf rt teamId (mapNumber s) now in
              (s\<lparr>submitting := True\<rparr>,
               [PreventDefault, SetSubmitting True,
                StorageUpload ''scoreboards'' fileName file True],
               Some \<lparr> c_imageFile = file, c_fileName = fileName, c_teamId = teamId, c_mapNumber = mapNumber s,
                      c_killsNums = kn, c_placement = placement s \<rparr>))))"

text \<open>The \<open>catch\<close> and \<open>finally\<close> blocks, lines 146 to 151.\<close>

definition submit_failed :: "error \<Rightarrow> 'f state \<Rightarrow> 'f state \<times> 'f event list" where
  "submit_failed err s =
     (s\<lparr>submitting := False\<rparr>,
      [ConsoleError ''Submission error:'' err,
       Alert ''Failed to submit. Check console for details.'', SetSubmitting False])"

text \<open>Lines 116 to 134: the upload has answered; look the URL up and call insert.\<close>

definition after_upload ::
  "(string \<Rightarrow> string) \<Rightarrow> 'f closure \<Rightarrow> outcome \<Rightarrow> 'f state
     \<Rightarrow> 'f state \<times> 'f event list \<times> submission option" where
  "after_upload publicUrlOf c answer s =
     (case answer of
        Rejects err \<Rightarrow> (let (s', ev) = submit_failed err s in (s', ev, None))
      | Resolves (Some uploadError) \<Rightarrow> (let (s', ev) = submit_failed uploadError s in (s', ev, None))
      | Resolves None \<Rightarrow>
          (let imageUrl = publicUrlOf (c_fileName c);
               row = \<lparr> team_id = c_teamId c, map_number = c_mapNumber c,
                       player1_kills = js_index (c_killsNums c) 0,
                       player2_kills = js_index (c_killsNums c) 1,
                       player3_kills = js_index (c_killsNums c) 2,
                       placement_of = c_placement c,
                       scoreboard_image_url = imageUrl \<rparr>
           in (s, [StorageGetPublicUrl ''scoreboards'' (c_fileName c),
                   TableInsert ''submissions'' row], Some row)))"

text \<open>Lines 136 to 151: the insert has answered.\<close>

definition after_insert :: "runtime \<Rightarrow> outcome \<Rightarrow> 'f state \<Rightarrow> 'f state \<times> 'f event list" where
  "after_insert rt answer s =
     (case answer of
        Rejects err \<Rightarrow> submit_failed err s
      | Resolves (Some insertError) \<Rightarrow> submit_failed insertError s
      | Resolves None \<Rightarrow>
          (s\<lparr>mapNumber := Plus rt (mapNumber s) (Fin 1), placement := Fin 0,
              playerKills := ['''', '''', ''''], imageFile := None, imagePreview := '''',
              submitting := False\<rparr>,
           [Alert ''Submission uploaded successfully!'', SetSubmitting False]))"

text \<open>
  One whole run of \<open>handleSubmit\<close> with nothing else happening in between: the three
  pieces in sequence, each answer taken from the backend.
\<close>

definition handleSubmit ::
  "runtime \<Rightarrow> 'f backend \<Rightarrow> jsnum \<Rightarrow> jsnum \<Rightarrow> 'f state \<Rightarrow> 'f state \<times> 'f event list" where
  "handleSubmit rt be teamId now s =
     (case submit_begin rt teamId now s of
        (s1, ev1, None) \<Rightarrow> (s1, ev1)
      | (s1, ev1, Some c) \<Rightarrow>
          (case after_upload (getPublicUrl be) c (upload be (c_fileName c) (c_imageFile c)) s1 of
             (s2, ev2, None) \<Rightarrow> (s2, ev1 @ ev2)
           | (s2, ev2, Some row) \<Rightarrow>
               (let (s3, ev3) = after_insert rt (insert be row) s2 in (s3, ev1 @ ev2 @ ev3))))"

text \<open>The calls on the backend among a run's events.\<close>

fun is_backend_call :: "'f event \<Rightarrow> bool" where
  "is_backend_call (StorageUpload _ _ _ _) = True"
| "is_backend_call (StorageGetPublicUrl _ _) = True"
| "is_backend_call (TableInsert _ _) = True"
| "is_backend_call _ = False"

definition backend_calls :: "'f event list \<Rightarrow> 'f event list" where
  "backend_calls evs = filter is_backend_call evs"

fun inserted_rows :: "'f event list \<Rightarrow> submission list" where
  "inserted_rows [] = []"
| "inserted_rows (TableInsert t row # evs) = row # inserted_rows evs"
| "inserted_rows (_ # evs) = inserted_rows evs"

fun uploaded_files :: "'f event list \<Rightarrow> 'f list" where
  "uploaded_files [] = []"
| "uploaded_files (StorageUpload bucket name file upsert # evs) = file # uploaded_files evs"
| "uploaded_files (_ # evs) = uploaded_files evs"

definition set_submitting_calls :: "'f event list \<Rightarrow> bool list" where
  "set_submitting_calls evs = concat (map (\<lambda>e. case e of SetSubmitting b \<Rightarrow> [b] | _ \<Rightarrow> []) evs)"

fun is_alert :: "'f event \<Rightarrow> bool" where
  "is_alert (Alert _) = True"
| "is_alert _ = False"

subsection \<open>The form's controls\<close>

text \<open>
  The \<open>onChange\<close> handlers of the map number, the placement and the three kill inputs.
  The kill inputs are rendered for the indices 0, 1 and 2, and \<open>copy[idx] = value\<close>
  overwrites an entry of the array, which has three (\<open>fire\<close> below asks for it, and
  lemma \<open>run_page_ok\<close> shows that it never changes).
\<close>

definition onChangeMapNumber :: "runtime \<Rightarrow> string \<Rightarrow> 'f state \<Rightarrow> 'f state" where
  "onChangeMapNumber rt v s = s\<lparr>mapNumber := Number rt v\<rparr>"

definition onChangePlacement :: "runtime \<Rightarrow> string \<Rightarrow> 'f state \<Rightarrow> 'f state" where
  "onChangePlacement rt v s = s\<lparr>placement := Number rt v\<rparr>"

definition onChangeKills :: "nat \<Rightarrow> string \<Rightarrow> 'f state \<Rightarrow> 'f state" where
  "onChangeKills idx v s = s\<lparr>playerKills := (playerKills s)[idx := v]\<rparr>"

text \<open>
  What the render shows of the state, as far as it is used here: the preview block
  (\<open>imagePreview && ...\<close>, a non-empty string being truthy) and the submit button.
\<close>

record view =
  previewShown :: bool
  submitDisabled :: bool
  submitLabel :: string

definition render :: "'f state \<Rightarrow> view" where
  "render s = \<lparr> previewShown = (imagePreview s \<noteq> ''''),
                submitDisabled = submitting s,
                submitLabel = (if submitting s then ''Submitting...'' else ''Submit Score'') \<rparr>"

text \<open>
  What the controls can hand to their \<open>onChange\<close> handlers. The value of an input
  with \<open>type="number"\<close> is the empty string or a valid floating-point number of HTML:
  an optional minus sign, then digits, or a point and digits, or both, then an
  optional exponent (\<open>e\<close> or \<open>E\<close>, an optional sign, digits). The placement select
  offers the values of its options that can be chosen, 1 to 16.
\<close>

definition is_digit :: "char \<Rightarrow> bool" where
  "is_digit c \<longleftrightarrow> c \<in> set ''0123456789''"

definition exponent_text :: "string \<Rightarrow> bool" where
  "exponent_text v =
     (case v of
        [] \<Rightarrow> True
      | c # r \<Rightarrow>
          (c = CHR ''e'' \<or> c = CHR ''E'')
          \<and> (let digits = (case r of
                              [] \<Rightarrow> []
                            | sign # r' \<Rightarrow>
                                if sign = CHR ''-'' \<or> sign = CHR ''+'' then r' else r)
             in digits \<noteq> [] \<and> list_all is_digit digits))"

definition number_text :: "string \<Rightarrow> bool" where
  "number_text v =
     (let unsigned = (case v of [] \<Rightarrow> [] | c # r \<Rightarrow> if c = CHR ''-'' then r else v);
          whole = takeWhile is_digit unsigned;
          after_whole = dropWhile is_digit unsigned;
          has_point = (case after_whole of [] \<Rightarrow> False | c # r \<Rightarrow> c = CHR ''.'');
          fraction = (if has_point then takeWhile is_digit (tl after_whole) else []);
          after_fraction =
            (if has_point then dropWhile is_digit (tl after_whole) else after_whole)
      in (if has_point then fraction \<noteq> [] else whole \<noteq> [])
         \<and> exponent_text after_fraction)"

definition number_input_values :: "string \<Rightarrow> bool" where
  "number_input_values v \<longleftrightarrow> v = '''' \<or> number_text v"

definition placement_options :: "string list" where
  "placement_options =
     map (\<lambda>d. [d]) ''123456789'' @ map (\<lambda>d. [CHR ''1'', d]) ''0123456''"

text \<open>
  The form is submitted through its submit button, and the browser validates the
  controls before it fires the submit event. \<open>checkValidity\<close> is that validation
  of the form as rendered:
  \<^item> the map number input has \<open>type="number"\<close>, \<open>min="1"\<close> and \<open>required\<close>, with the
    state's number as value: it must be a number, at least 1, and a whole number of
    steps (of 1, the default) above the minimum;
  \<^item> the placement select is \<open>required\<close> and its value is \<open>placement || ''\<close>: while
    the placement is falsy the disabled placeholder option is the selected one and
    the select is missing its value;
  \<^item> each kill input has \<open>type="number"\<close>, \<open>min="0"\<close> and \<open>required\<close>, with the kill
    string as value: the string must not be empty and must read as a number, at least
    0 and whole. An input of this type holds the empty string or the text of a number,
    which \<open>Number\<close> reads as the browser does.
  The file input and the textarea are not required.
\<close>

definition number_input_valid :: "real \<Rightarrow> jsnum \<Rightarrow> bool" where
  "number_input_valid lowest n =
     (case n of
        Fin x \<Rightarrow> lowest \<le> x \<and> of_int \<lfloor>x - lowest\<rfloor> = x - lowest
      | _ \<Rightarrow> False)"

fun truthy :: "jsnum \<Rightarrow> bool" where
  "truthy NaN = False"
| "truthy (Fin x) = (x \<noteq> 0)"
| "truthy _ = True"

definition checkValidity :: "runtime \<Rightarrow> 'f state \<Rightarrow> bool" where
  "checkValidity rt s \<longleftrightarrow>
     number_input_valid 1 (mapNumber s)
     \<and> truthy (placement s)
     \<and> list_all
          (\<lambda>idx. case js_index (playerKills s) idx of
                    Some k \<Rightarrow> k \<noteq> '''' \<and> number_input_valid 0 (Number rt k)
                  | None \<Rightarrow> False)
          [0, 1, 2]"

subsection \<open>The page over time\<close>

text \<open>
  While a handler waits the page stays live: the user edits fields, chooses and
  pastes images, presses submit again, and compressions and backend answers arrive
  in any order. A \<open>page\<close> is the state together with the handlers that are
  waiting and everything emitted so far:
  \<^item> \<open>compressions\<close> are the runs of \<open>handleFileChange\<close>, \<open>handleTextareaPaste\<close> and
    \<open>handleGlobalPaste\<close> that wait for \<open>imageCompression\<close>, each with the file it
    sent and, for a paste, the items its loop has still to visit;
  \<^item> \<open>flights\<close> are the runs of \<open>handleSubmit\<close> that wait for the upload (with
    their closure) or for the insert.
  An \<open>action\<close> is one turn of the event loop: an event of the user, or the answer to
  one of the waiting handlers, which then runs to its next wait or to its end. An
  action that cannot happen (a value that the control cannot hold, an answer to a
  handler that is not waiting) gives \<open>None\<close>. A press of the submit button fires
  the submit event, and with it \<open>handleSubmit\<close>, only if the button is not disabled
  and the form is valid; otherwise it changes nothing.
\<close>

datatype origin = FileInput | Textarea | Elsewhere

fun message_of :: "origin \<Rightarrow> string" where
  "message_of FileInput = ''Image compression failed:''"
| "message_of _ = ''Paste compression failed:''"

datatype 'f waiting = Compressing origin 'f "'f item list"

datatype 'f flight = AwaitingUpload "'f closure" | AwaitingInsert

record 'f page =
  form :: "'f state"
  compressions :: "'f waiting list"
  flights :: "'f flight list"
  emitted :: "'f event list"

definition start_page :: "'f page" where
  "start_page = \<lparr> form = initial, compressions = [], flights = [], emitted = [] \<rparr>"

datatype 'f action =
    EditMapNumber string
  | EditPlacement string
  | EditKills nat string
  | ChooseFile "'f list option"
  | PasteInTextarea "'f item list option"
  | PasteElsewhere bool "'f item list option"
  | CompressionAnswers nat "'f browser"
  | PressSubmit jsnum
  | UploadAnswers nat outcome
  | InsertAnswers nat outcome

definition drop_nth :: "nat \<Rightarrow> 'a list \<Rightarrow> 'a list" where
  "drop_nth i xs = take i xs @ drop (Suc i) xs"

text \<open>
  A paste loop from the items it has still to visit to its next wait: the waiting
  handler, if the loop finds an image, and what it emits on the way
  (\<open>handleTextareaPaste\<close> calls \<open>preventDefault\<close> before it processes an image).
\<close>

definition paste_loop :: "origin \<Rightarrow> 'f item list \<Rightarrow> 'f waiting list \<times> 'f event list" where
  "paste_loop src items =
     (case next_image items of
        Some (file, rest) \<Rightarrow>
          ([Compressing src file rest],
           (if src = Textarea then [PreventDefault] else []) @ [ImageCompression file])
      | None \<Rightarrow> ([], []))"

fun fire ::
  "runtime \<Rightarrow> jsnum \<Rightarrow> (string \<Rightarrow> string) \<Rightarrow> 'f action \<Rightarrow> 'f page \<Rightarrow> 'f page option" where
  "fire rt teamId publicUrlOf (EditMapNumber v) p =
     (if number_input_values v
      then Some (p\<lparr>form := onChangeMapNumber rt v (form p)\<rparr>) else None)"
| "fire rt teamId publicUrlOf (EditPlacement v) p =
     (if v \<in> set placement_options
      then Some (p\<lparr>form := onChangePlacement rt v (form p)\<rparr>) else None)"
| "fire rt teamId publicUrlOf (EditKills idx v) p =
     (if idx < 3 \<and> length (playerKills (form p)) = 3 \<and> number_input_values v
      then Some (p\<lparr>form := onChangeKills idx v (form p)\<rparr>) else None)"
| "fire rt teamId publicUrlOf (ChooseFile files) p =
     (case (case files of None \<Rightarrow> None | Some fs \<Rightarrow> js_index fs 0) of
        None \<Rightarrow> Some p
      | Some file \<Rightarrow>
          Some (p\<lparr>compressions := compressions p @ [Compressing FileInput file []],
                  emitted := emitted p @ [ImageCompression file]\<rparr>))"
| "fire rt teamId publicUrlOf (PasteInTextarea clipboardData) p =
     (case clipboardData of
        None \<Rightarrow> Some p
      | Some items \<Rightarrow>
          (let (ws, ev) = paste_loop Textarea items
           in Some (p\<lparr>compressions := compressions p @ ws, emitted := emitted p @ ev\<rparr>)))"
| "fire rt teamId publicUrlOf (PasteElsewhere activeIsTextarea clipboardData) p =
     (if activeIsTextarea then Some p
      else case clipboardData of
        None \<Rightarrow> Some p
      | Some items \<Rightarrow>
          (let (ws, ev) = paste_loop Elsewhere items
           in Some (p\<lparr>compressions := compressions p @ ws, emitted := emitted p @ ev\<rparr>)))"
| "fire rt teamId publicUrlOf (CompressionAnswers i br) p =
     (case js_index (compressions p) i of
        None \<Rightarrow> None
      | Some (Compressing src file rest) \<Rightarrow>
          (let (s', ev) = after_compression (message_of src) br file (form p);
               (ws, ev') = paste_loop src rest
           in Some (p\<lparr>form := s',
                      compressions := take i (compressions p) @ ws @ drop (Suc i) (compressions p),
                      emitted := emitted p @ ev @ ev'\<rparr>)))"
| "fire rt teamId publicUrlOf (PressSubmit now) p =
     (if submitDisabled (render (form p)) \<or> \<not> checkValidity rt (form p) then Some p
      else
        (let (s', ev, c) = submit_begin rt teamId now (form p)
         in Some (p\<lparr>form := s',
                    flights := flights p @ (case c of None \<Rightarrow> [] | Some c' \<Rightarrow> [AwaitingUpload c']),
                    emitted := emitted p @ ev\<rparr>)))"
| "fire rt teamId publicUrlOf (UploadAnswers i answer) p =
     (case js_index (flights p) i of
        Some (AwaitingUpload c) \<Rightarrow>
          (let (s', ev, row) = after_upload publicUrlOf c answer (form p)
           in Some (p\<lparr>form := s',
                      flights := (case row of None \<Rightarrow> drop_nth i (flights p)
                                  | Some _ \<Rightarrow> (flights p)[i := AwaitingInsert]),
                      emitted := emitted p @ ev\<rparr>))
      | _ \<Rightarrow> None)"
| "fire rt teamId publicUrlOf (InsertAnswers i answer) p =
     (case js_index (flights p) i of
        Some AwaitingInsert \<Rightarrow>
          (let (s', ev) = after_insert rt answer (form p)
           in Some (p\<lparr>form := s', flights := drop_nth i (flights p),
                      emitted := emitted p @ ev\<rparr>))
      | _ \<Rightarrow> None)"

fun run ::
  "runtime \<Rightarrow> jsnum \<Rightarrow> (string \<Rightarrow> string) \<Rightarrow> 'f action list \<Rightarrow> 'f page \<Rightarrow> 'f page option" where
  "run rt teamId publicUrlOf [] p = Some p"
| "run rt teamId publicUrlOf (a # as) p =
     (case fire rt teamId publicUrlOf a p of
        None \<Rightarrow> None
      | Some p' \<Rightarrow> run rt teamId publicUrlOf as p')"

text \<open>
  Reading a log with the flag: \<open>flag_scan b evs\<close> follows the calls of
  \<open>setSubmitting\<close> from the value \<open>b\<close> and gives the last value written, or
  \<open>None\<close> if some backend call is made while the flag is false.
\<close>

fun flag_scan :: "bool \<Rightarrow> 'f event list \<Rightarrow> bool option" where
  "flag_scan b [] = Some b"
| "flag_scan b (SetSubmitting b' # evs) = flag_scan b' evs"
| "flag_scan b (e # evs) = (if is_backend_call e \<and> \<not> b then None else flag_scan b evs)"

text \<open>What holds of every page the component can get to (lemma \<open>run_page_ok\<close>).\<close>

definition page_ok :: "'f page \<Rightarrow> bool" where
  "page_ok p \<longleftrightarrow>
     length (flights p) \<le> 1
     \<and> submitting (form p) = (flights p \<noteq> [])
     \<and> flag_scan False (emitted p) = Some (submitting (form p))
     \<and> length (playerKills (form p)) = 3"

section \<open>The map bar (TopBar)\<close>

text \<open>
  One rendered \<open>button\<close> element. \<open>onClick\<close> is the closure \<open>() => onSelectMap(mapNumber)\<close>;
  calling it gives whatever the callback gives. The children are the text \<open>Map\<close> and
  the number.
\<close>

record 'r button =
  key :: jsnum
  className :: string
  onClick :: "unit \<Rightarrow> 'r"
  button_type :: string
  children :: "string \<times> jsnum"

text \<open>
  \<open>Array.from({ length: 15 }, (_, index) => ...)\<close> calls the function at the indices
  0 to 14; \<open>index + 1\<close> is exact on them.
\<close>

definition TopBar :: "jsnum \<Rightarrow> (jsnum \<Rightarrow> 'r) \<Rightarrow> 'r button list" where
  "TopBar selectedMap onSelectMap =
     map (\<lambda>index.
            let mapNumber = Fin (real (index + 1)) in
            \<lparr> key = mapNumber,
              className = ''map-button '' @ (if strict_eq selectedMap mapNumber then ''selected'' else ''''),
              onClick = (\<lambda>_. onSelectMap mapNumber),
              button_type = ''button'',
              children = (''Map '', mapNumber) \<rparr>)
         [0..<15]"

text \<open>
  The classes of an element are the words of its \<open>className\<close> between spaces.
\<close>

fun class_words :: "string \<Rightarrow> string \<Rightarrow> string list" where
  "class_words w [] = (if w = [] then [] else [w])"
| "class_words w (c # cs) =
     (if c = CHR '' '' then (if w = [] then class_words [] cs else w # class_words [] cs)
      else class_words (w @ [c]) cs)"

definition has_class :: "string \<Rightarrow> 'r button \<Rightarrow> bool" where
  "has_class cls b = (cls \<in> set (class_words [] (className b)))"

section \<open>Example environments\<close>

text \<open>
  Concrete worlds to run the handlers in. Files are numbered; the example compressor
  gives file \<open>n\<close> the compressed file \<open>n + 100\<close>. The example runtime knows a few
  strings and adds finite numbers exactly.
\<close>

definition example_runtime :: runtime where
  "example_runtime =
     \<lparr> Number = (\<lambda>k. if k = '''' then Fin 0 else if k = ''2'' then Fin 2
                     else if k = ''5'' then Fin 5 else if k = ''7'' then Fin 7 else NaN),
       Plus = (\<lambda>a b. case (a, b) of (Fin x, Fin y) \<Rightarrow> Fin (x + y) | _ \<Rightarrow> NaN),
       ToString = (\<lambda>n. if n = Fin 1 then ''1'' else if n = Fin 4 then ''4''
                       else if n = Fin 15 then ''15'' else ''1700000000000'') \<rparr>"

definition example_browser :: "nat browser" where
  "example_browser =
     \<lparr> imageCompression = (\<lambda>file. Inr (file + 100)),
       createObjectURL = (\<lambda>file. ''blob:preview'') \<rparr>"

definition failing_compressor :: "nat browser" where
  "failing_compressor =
     \<lparr> imageCompression = (\<lambda>file. Inl (Error ''canvas is tainted'')),
       createObjectURL = (\<lambda>file. ''blob:preview'') \<rparr>"

definition example_backend :: "nat backend" where
  "example_backend =
     \<lparr> upload = (\<lambda>fileName file. Resolves None),
       getPublicUrl = (\<lambda>fileName. ''https://cdn.example/scoreboards/'' @ fileName),
       insert = (\<lambda>row. Resolves None) \<rparr>"

definition upload_refusing_backend :: "nat backend" where
  "upload_refusing_backend =
     example_backend \<lparr> upload := (\<lambda>fileName file. Resolves (Some (Error ''bucket not found''))) \<rparr>"

definition insert_refusing_backend :: "nat backend" where
  "insert_refusing_backend =
     example_backend \<lparr> insert := (\<lambda>row. Resolves (Some (Error ''row violates policy''))) \<rparr>"

text \<open>
  Forms: kills 2, none typed, 7 on map 1 with placement 4 and no image yet; the same
  with image file 8; the same with a second kill count that is no number.
\<close>

definition typed_form :: "nat state" where
  "typed_form =
     \<lparr> imageFile = None, imagePreview = '''', mapNumber = Fin 1,
       placement = Fin 4, playerKills = [''2'', '''', ''7''], submitting = False \<rparr>"

definition filled_form :: "nat state" where
  "filled_form = typed_form \<lparr> imageFile := Some 8, imagePreview := ''blob:preview'' \<rparr>"

definition mistyped_form :: "nat state" where
  "mistyped_form = filled_form \<lparr> playerKills := [''2'', ''abc'', ''7''] \<rparr>"

definition last_map_form :: "nat state" where
  "last_map_form = filled_form \<lparr> mapNumber := Fin 15 \<rparr>"

text \<open>Clipboard items: two images (files 8 and 9) and a piece of text.\<close>

definition image_item :: "nat item" where
  "image_item = \<lparr> item_type = ''image/png'', getAsFile = Some 8 \<rparr>"

definition second_image_item :: "nat item" where
  "second_image_item = \<lparr> item_type = ''image/jpeg'', getAsFile = Some 9 \<rparr>"

definition text_item :: "nat item" where
  "text_item = \<lparr> item_type = ''text/plain'', getAsFile = None \<rparr>"

text \<open>
  The turns that fill the start page in: placement 5, kills 2, 5 and 7, and an image
  pasted in the textarea whose compression answers with file 108.
\<close>

definition ready_actions :: "nat action list" where
  "ready_actions =
     [EditPlacement ''5'', EditKills 0 ''2'', EditKills 1 ''5'', EditKills 2 ''7'',
      PasteInTextarea (Some [image_item]), CompressionAnswers 0 example_browser]"

section \<open>Properties of a submission\<close>

lemmas submit_defs = handleSubmit_def submit_begin_def after_upload_def after_insert_def
  submit_failed_def Let_def

lemmas example_defs = example_runtime_def example_browser_def failing_compressor_def
  example_backend_def upload_refusing_backend_def insert_refusing_backend_def typed_form_def
  filled_form_def mistyped_form_def last_map_form_def image_item_def second_image_item_def
  text_item_def initial_def
  killsNums_def fileNameOf_def js_index_def backend_calls_def set_submitting_calls_def

text \<open>
  The three pieces put together read as the source does from top to bottom.
\<close>

lemma handleSubmit_straight_line:
  "handleSubmit rt be teamId now s =
     (case imageFile s of
        None \<Rightarrow> (s, [PreventDefault, Alert ''Please upload or paste a scoreboard image.''])
      | Some file \<Rightarrow>
          if list_ex isNaN (killsNums rt (playerKills s)) then
            (s, [PreventDefault, Alert ''Please enter valid numbers for player kills.''])
          else
            let fileName = fileNameOf rt teamId (mapNumber s) now;
                begun = [PreventDefault, SetSubmitting True,
                         StorageUpload ''scoreboards'' fileName file True]
            in case thrown (upload be fileName file) of
                 Some uploadError \<Rightarrow>
                   (s\<lparr>submitting := False\<rparr>,
                    begun @ [ConsoleError ''Submission error:'' uploadError,
                             Alert ''Failed to submit. Check console for details.'',
                             SetSubmitting False])
               | None \<Rightarrow>
                   let row = \<lparr> team_id = teamId, map_number = mapNumber s,
                               player1_kills = js_index (killsNums rt (playerKills s)) 0,
                               player2_kills = js_index (killsNums rt (playerKills s)) 1,
                               player3_kills = js_index (killsNums rt (playerKills s)) 2,
                               placement_of = placement s,
                               scoreboard_image_url = getPublicUrl be fileName \<rparr>;
                       called = begun @ [StorageGetPublicUrl ''scoreboards'' fileName,
                                         TableInsert ''submissions'' row]
                   in case thrown (insert be row) of
                        Some insertError \<Rightarrow>
                          (s\<lparr>submitting := False\<rparr>,
                           called @ [ConsoleError ''Submission error:'' insertError,
                                     Alert ''Failed to submit. Check console for details.'',
                                     SetSubmitting False])
                      | None \<Rightarrow>
                          (s\<lparr>mapNumber := Plus rt (mapNumber s) (Fin 1), placement := Fin 0,
                              playerKills := ['''', '''', ''''], imageFile := None,
                              imagePreview := '''', submitting := False\<rparr>,
                           called @ [Alert ''Submission uploaded successfully!'',
                                     SetSubmitting False]))"
proof (cases "imageFile s")
  case None
  then show ?thesis
    by (simp add: submit_defs)
next
  case (Some f)
  show ?thesis
  proof (cases "upload be (fileNameOf rt teamId (mapNumber s) now) f" rule: thrown.cases)
    case (1 err)
    with Some show ?thesis by (simp add: submit_defs)
  next
    case (2 err)
    with Some show ?thesis by (simp add: submit_defs)
  next
    case 3
    with Some show ?thesis
      by (cases "insert be
            \<lparr> team_id = teamId, map_number = mapNumber s,
              player1_kills = js_index (killsNums rt (playerKills s)) 0,
              player2_kills = js_index (killsNums rt (playerKills s)) 1,
              player3_kills = js_index (killsNums rt (playerKills s)) 2,
              placement_of = placement s,
              scoreboard_image_url = getPublicUrl be (fileNameOf rt teamId (mapNumber s) now) \<rparr>"
            rule: thrown.cases)
         (simp_all add: submit_defs)
  qed
qed

text \<open>
  C1. A submission has succeeded when the success alert is shown. Then one record has
  been handed to \<open>insert\<close>, with the seven fields of \<open>submission\<close>: the team id of
  the props, the map number and placement of the state, the three converted kill
  counts, and the public URL of the uploaded file.
\<close>

theorem handleSubmit_one_record:
  assumes "Alert ''Submission uploaded successfully!'' \<in> set (snd (handleSubmit rt be teamId now s))"
  shows "inserted_rows (snd (handleSubmit rt be teamId now s)) =
           [\<lparr> team_id = teamId, map_number = mapNumber s,
              player1_kills = js_index (killsNums rt (playerKills s)) 0,
              player2_kills = js_index (killsNums rt (playerKills s)) 1,
              player3_kills = js_index (killsNums rt (playerKills s)) 2,
              placement_of = placement s,
              scoreboard_image_url = getPublicUrl be (fileNameOf rt teamId (mapNumber s) now) \<rparr>]"
  using assms
  by (auto simp: submit_defs split: option.splits if_splits outcome.splits)

theorem handleSubmit_one_record_witness:
  "Alert ''Submission uploaded successfully!''
     \<in> set (snd (handleSubmit example_runtime example_backend (Fin 4) (Fin 1700000000000) filled_form))
   \<and> inserted_rows (snd (handleSubmit example_runtime example_backend (Fin 4) (Fin 1700000000000) filled_form)) =
       [\<lparr> team_id = Fin 4, map_number = Fin 1, player1_kills = Some (Fin 2),
          player2_kills = Some (Fin 0), player3_kills = Some (Fin 7), placement_of = Fin 4,
          scoreboard_image_url = ''https://cdn.example/scoreboards/team4_map1_1700000000000.jpg'' \<rparr>]"
proof -
  have shown: "Alert ''Submission uploaded successfully!''
     \<in> set (snd (handleSubmit example_runtime example_backend (Fin 4) (Fin 1700000000000) filled_form))"
    by (simp add: submit_defs example_defs)
  from handleSubmit_one_record[OF shown] shown show ?thesis
    by (simp add: example_defs)
qed

text \<open>
  C2. A submission that passes validation calls the backend in this order: upload,
  then the public URL of the same file name, then insert, whose row carries that URL.
  When the upload rejects or answers with an error, the upload is the only call.
\<close>

theorem handleSubmit_call_order:
  assumes "imageFile s = Some f" and "\<not> list_ex isNaN (killsNums rt (playerKills s))"
    and "fileName = fileNameOf rt teamId (mapNumber s) now"
  shows "(thrown (upload be fileName f) \<noteq> None \<longrightarrow>
            backend_calls (snd (handleSubmit rt be teamId now s)) =
              [StorageUpload ''scoreboards'' fileName f True])
       \<and> (thrown (upload be fileName f) = None \<longrightarrow>
            (\<exists>row. scoreboard_image_url row = getPublicUrl be fileName
               \<and> backend_calls (snd (handleSubmit rt be teamId now s)) =
                   [StorageUpload ''scoreboards'' fileName f True,
                    StorageGetPublicUrl ''scoreboards'' fileName,
                    TableInsert ''submissions'' row]))"
  using assms
  by (cases "upload be fileName f" rule: thrown.cases)
     (auto simp: submit_defs backend_calls_def split: outcome.splits option.splits)

theorem handleSubmit_call_order_witness:
  "imageFile filled_form = Some 8
   \<and> \<not> list_ex isNaN (killsNums example_runtime (playerKills filled_form))
   \<and> thrown (upload upload_refusing_backend ''team4_map1_1700000000000.jpg'' 8) \<noteq> None
   \<and> backend_calls (snd (handleSubmit example_runtime upload_refusing_backend (Fin 4)
         (Fin 1700000000000) filled_form)) =
       [StorageUpload ''scoreboards'' ''team4_map1_1700000000000.jpg'' 8 True]
   \<and> thrown (upload example_backend ''team4_map1_1700000000000.jpg'' 8) = None
   \<and> (\<exists>row. scoreboard_image_url row =
                ''https://cdn.example/scoreboards/team4_map1_1700000000000.jpg''
          \<and> backend_calls (snd (handleSubmit example_runtime example_backend (Fin 4)
                (Fin 1700000000000) filled_form)) =
              [StorageUpload ''scoreboards'' ''team4_map1_1700000000000.jpg'' 8 True,
               StorageGetPublicUrl ''scoreboards'' ''team4_map1_1700000000000.jpg'',
               TableInsert ''submissions'' row])"
proof -
  have image: "imageFile filled_form = Some 8"
    by (simp add: example_defs)
  have valid: "\<not> list_ex isNaN (killsNums example_runtime (playerKills filled_form))"
    by (simp add: example_defs)
  have name: "''team4_map1_1700000000000.jpg'' =
      fileNameOf example_runtime (Fin 4) (mapNumber filled_form) (Fin 1700000000000)"
    by (simp add: example_defs)
  have refused: "thrown (upload upload_refusing_backend ''team4_map1_1700000000000.jpg'' 8) \<noteq> None"
    by (simp add: example_defs)
  have accepted: "thrown (upload example_backend ''team4_map1_1700000000000.jpg'' 8) = None"
    by (simp add: example_defs)
  from handleSubmit_call_order[OF image valid name, of upload_refusing_backend]
       handleSubmit_call_order[OF image valid name, of example_backend]
       image valid refused accepted
  show ?thesis
    by (simp add: example_defs)
qed

text \<open>
  C5. If no image file is set, or one of the kill-count strings parses to NaN,
  \<open>handleSubmit\<close> shows one alert and returns: nothing is called on the backend, and
  \<open>setSubmitting\<close> is not called and the state is as before. The first hypothesis is
  JavaScript's \<open>Number('') === 0\<close>.
\<close>

theorem handleSubmit_validation_gate:
  assumes "Number rt '''' = Fin 0"
    and "imageFile s = None \<or> (\<exists>k \<in> set (playerKills s). isNaN (Number rt k))"
  shows "\<exists>msg. handleSubmit rt be teamId now s = (s, [PreventDefault, Alert msg])
           \<and> backend_calls (snd (handleSubmit rt be teamId now s)) = []
           \<and> set_submitting_calls (snd (handleSubmit rt be teamId now s)) = []"
proof (cases "imageFile s")
  case None
  then show ?thesis
    by (simp add: handleSubmit_def submit_begin_def backend_calls_def set_submitting_calls_def)
next
  case (Some f)
  with assms(2) obtain k where k: "k \<in> set (playerKills s)" "isNaN (Number rt k)"
    by auto
  with assms(1) have "k \<noteq> ''''"
    by auto
  with k have "list_ex isNaN (killsNums rt (playerKills s))"
    by (auto simp: killsNums_def list_ex_iff)
  with Some show ?thesis
    by (simp add: handleSubmit_def submit_begin_def backend_calls_def set_submitting_calls_def)
qed

theorem handleSubmit_validation_gate_witness:
  "Number example_runtime '''' = Fin 0
   \<and> imageFile mistyped_form \<noteq> None
   \<and> ''abc'' \<in> set (playerKills mistyped_form) \<and> isNaN (Number example_runtime ''abc'')
   \<and> handleSubmit example_runtime example_backend (Fin 4) (Fin 1700000000000) mistyped_form =
       (mistyped_form, [PreventDefault, Alert ''Please enter valid numbers for player kills.''])
   \<and> imageFile typed_form = None
   \<and> handleSubmit example_runtime example_backend (Fin 4) (Fin 1700000000000) typed_form =
       (typed_form, [PreventDefault, Alert ''Please upload or paste a scoreboard image.''])"
proof -
  have empty: "Number example_runtime '''' = Fin 0"
    by (simp add: example_defs)
  have mistyped: "imageFile mistyped_form = None
      \<or> (\<exists>k \<in> set (playerKills mistyped_form). isNaN (Number example_runtime k))"
    by (simp add: example_defs)
  have no_image: "imageFile typed_form = None
      \<or> (\<exists>k \<in> set (playerKills typed_form). isNaN (Number example_runtime k))"
    by (simp add: example_defs)
  from handleSubmit_validation_gate[OF empty mistyped, of example_backend "Fin 4" "Fin 1700000000000"]
       handleSubmit_validation_gate[OF empty no_image, of example_backend "Fin 4" "Fin 1700000000000"]
  show ?thesis
    by (simp add: submit_defs example_defs)
qed

text \<open>
  C8. Whatever row a submission inserts, its three kill fields are the three kill
  strings converted one by one: 0 for the empty string, \<open>Number\<close> of the string
  otherwise; and no field is NaN, since validation let the submission through.
\<close>

theorem kills_conversion:
  assumes "playerKills s = [k1, k2, k3]"
    and "TableInsert t row \<in> set (snd (handleSubmit rt be teamId now s))"
  shows "player1_kills row = Some (if k1 = '''' then Fin 0 else Number rt k1)
       \<and> player2_kills row = Some (if k2 = '''' then Fin 0 else Number rt k2)
       \<and> player3_kills row = Some (if k3 = '''' then Fin 0 else Number rt k3)
       \<and> Some NaN \<notin> {player1_kills row, player2_kills row, player3_kills row}"
  using assms
  by (auto simp: submit_defs killsNums_def js_index_def
           split: option.splits if_splits outcome.splits)

theorem kills_conversion_witness:
  "playerKills filled_form = [''2'', '''', ''7'']
   \<and> (\<exists>row. TableInsert ''submissions'' row
          \<in> set (snd (handleSubmit example_runtime example_backend (Fin 4) (Fin 1700000000000) filled_form))
        \<and> player1_kills row = Some (Fin 2)
        \<and> player2_kills row = Some (Fin 0)
        \<and> player3_kills row = Some (Fin 7))"
proof -
  have kills: "playerKills filled_form = [''2'', '''', ''7'']"
    by (simp add: example_defs)
  have "\<exists>row. TableInsert ''submissions'' row
      \<in> set (snd (handleSubmit example_runtime example_backend (Fin 4) (Fin 1700000000000) filled_form))"
    by (simp add: submit_defs example_defs)
  then obtain row where row: "TableInsert ''submissions'' row
      \<in> set (snd (handleSubmit example_runtime example_backend (Fin 4) (Fin 1700000000000) filled_form))"
    by blast
  from kills_conversion[OF kills row] have
    "player1_kills row = Some (Fin 2) \<and> player2_kills row = Some (Fin 0)
       \<and> player3_kills row = Some (Fin 7)"
    by (simp add: example_defs)
  with kills row show ?thesis
    by blast
qed

text \<open>
  C9. When the upload that a submission made, or the insert that it made, rejects or
  answers with an error, the state afterwards is the state at the press of submit
  with the submitting flag false: map number, placement, kill strings, image file
  and preview are as they were.
\<close>

theorem failed_submission_keeps_form:
  assumes "(StorageUpload bucket fileName f upsert \<in> set (snd (handleSubmit rt be teamId now s))
              \<and> thrown (upload be fileName f) \<noteq> None)
         \<or> (TableInsert t row \<in> set (snd (handleSubmit rt be teamId now s))
              \<and> thrown (insert be row) \<noteq> None)"
  shows "fst (handleSubmit rt be teamId now s) = s\<lparr>submitting := False\<rparr>"
  using assms
  by (auto simp: submit_defs split: option.splits if_splits outcome.splits)

theorem failed_submission_keeps_form_witness:
  "StorageUpload ''scoreboards'' ''team4_map1_1700000000000.jpg'' 8 True
     \<in> set (snd (handleSubmit example_runtime upload_refusing_backend (Fin 4) (Fin 1700000000000) filled_form))
   \<and> thrown (upload upload_refusing_backend ''team4_map1_1700000000000.jpg'' 8) \<noteq> None
   \<and> fst (handleSubmit example_runtime upload_refusing_backend (Fin 4) (Fin 1700000000000) filled_form)
       = filled_form
   \<and> (\<exists>row. TableInsert ''submissions'' row
          \<in> set (snd (handleSubmit example_runtime insert_refusing_backend (Fin 4) (Fin 1700000000000) filled_form))
        \<and> thrown (insert insert_refusing_backend row) \<noteq> None)
   \<and> fst (handleSubmit example_runtime insert_refusing_backend (Fin 4) (Fin 1700000000000) filled_form)
       = filled_form"
proof -
  have up: "StorageUpload ''scoreboards'' ''team4_map1_1700000000000.jpg'' 8 True
       \<in> set (snd (handleSubmit example_runtime upload_refusing_backend (Fin 4) (Fin 1700000000000) filled_form))
     \<and> thrown (upload upload_refusing_backend ''team4_map1_1700000000000.jpg'' 8) \<noteq> None"
    by (simp add: submit_defs example_defs)
  have "\<exists>row. TableInsert ''submissions'' row
       \<in> set (snd (handleSubmit example_runtime insert_refusing_backend (Fin 4) (Fin 1700000000000) filled_form))
     \<and> thrown (insert insert_refusing_backend row) \<noteq> None"
    by (simp add: submit_defs example_defs)
  then obtain row where ins: "TableInsert ''submissions'' row
       \<in> set (snd (handleSubmit example_runtime insert_refusing_backend (Fin 4) (Fin 1700000000000) filled_form))
     \<and> thrown (insert insert_refusing_backend row) \<noteq> None"
    by blast
  have same: "filled_form\<lparr>submitting := False\<rparr> = filled_form"
    by (simp add: example_defs)
  from failed_submission_keeps_form[OF disjI1, OF up]
       failed_submission_keeps_form[OF disjI2, OF ins] up ins same
  show ?thesis
    by auto
qed

text \<open>
  C10. After a submission that succeeded the map number is the one the state had
  plus one, whatever it was (no return to 1, no stop at 15); the placement is 0, the
  three kill strings are empty, the image file and the preview are cleared, and the
  submitting flag is false.
\<close>

theorem handleSubmit_reset:
  assumes "Alert ''Submission uploaded successfully!'' \<in> set (snd (handleSubmit rt be teamId now s))"
  shows "fst (handleSubmit rt be teamId now s) =
           s\<lparr>mapNumber := Plus rt (mapNumber s) (Fin 1), placement := Fin 0,
              playerKills := ['''', '''', ''''], imageFile := None, imagePreview := '''',
              submitting := False\<rparr>"
  using assms
  by (auto simp: submit_defs split: option.splits if_splits outcome.splits)

theorem handleSubmit_reset_witness:
  "Alert ''Submission uploaded successfully!''
     \<in> set (snd (handleSubmit example_runtime example_backend (Fin 4) (Fin 1700000000000) last_map_form))
   \<and> fst (handleSubmit example_runtime example_backend (Fin 4) (Fin 1700000000000) last_map_form) =
       \<lparr> imageFile = None, imagePreview = '''', mapNumber = Fin 16, placement = Fin 0,
         playerKills = ['''', '''', ''''], submitting = False \<rparr>"
proof -
  have shown: "Alert ''Submission uploaded successfully!''
     \<in> set (snd (handleSubmit example_runtime example_backend (Fin 4) (Fin 1700000000000) last_map_form))"
    by (simp add: submit_defs example_defs)
  from handleSubmit_reset[OF shown] shown show ?thesis
    by (simp add: example_defs)
qed

section \<open>Choosing and pasting\<close>

text \<open>
  Choosing and pasting write the image file and its preview and nothing else: the
  kill strings and the submitting flag stay, and nothing is called on the backend.
\<close>

lemma flag_scan_append:
  "flag_scan b (xs @ ys) = (case flag_scan b xs of None \<Rightarrow> None | Some b' \<Rightarrow> flag_scan b' ys)"
  by (induction b xs rule: flag_scan.induct) auto

lemma processPastedImage_quiet:
  "processPastedImage br file s = (s', ev) \<Longrightarrow>
     submitting s' = submitting s \<and> playerKills s' = playerKills s \<and> flag_scan b ev = Some b"
  by (auto simp: processPastedImage_def split: sum.splits)

lemma handleFileChange_quiet:
  "handleFileChange br files s = (s', ev) \<Longrightarrow>
     submitting s' = submitting s \<and> playerKills s' = playerKills s \<and> flag_scan b ev = Some b"
  by (auto simp: handleFileChange_def split: sum.splits option.splits)

lemma textareaPasteItems_quiet:
  "textareaPasteItems br items s = (s', ev) \<Longrightarrow>
     submitting s' = submitting s \<and> playerKills s' = playerKills s \<and> flag_scan b ev = Some b"
proof (induction items arbitrary: s s' ev)
  case Nil
  then show ?case by simp
next
  case (Cons it items)
  show ?case
  proof (cases "occurs_in ''image'' (item_type it)")
    case False
    with Cons show ?thesis by simp
  next
    case True
    show ?thesis
    proof (cases "getAsFile it")
      case None
      with True Cons show ?thesis by simp
    next
      case (Some f)
      obtain s1 ev1 where p1: "processPastedImage br f s = (s1, ev1)"
        by (cases "processPastedImage br f s")
      obtain s2 ev2 where p2: "textareaPasteItems br items s1 = (s2, ev2)"
        by (cases "textareaPasteItems br items s1")
      from Cons.prems True Some p1 p2 have eq: "s' = s2" "ev = PreventDefault # ev1 @ ev2"
        by auto
      from processPastedImage_quiet[OF p1] Cons.IH[OF p2] eq show ?thesis
        by (simp add: flag_scan_append)
    qed
  qed
qed

lemma globalPasteItems_quiet:
  "globalPasteItems br items s = (s', ev) \<Longrightarrow>
     submitting s' = submitting s \<and> playerKills s' = playerKills s \<and> flag_scan b ev = Some b"
proof (induction items arbitrary: s s' ev)
  case Nil
  then show ?case by simp
next
  case (Cons it items)
  show ?case
  proof (cases "occurs_in ''image'' (item_type it)")
    case False
    with Cons show ?thesis by simp
  next
    case True
    show ?thesis
    proof (cases "getAsFile it")
      case None
      with True Cons show ?thesis by simp
    next
      case (Some f)
      obtain s1 ev1 where p1: "processPastedImage br f s = (s1, ev1)"
        by (cases "processPastedImage br f s")
      obtain s2 ev2 where p2: "globalPasteItems br items s1 = (s2, ev2)"
        by (cases "globalPasteItems br items s1")
      from Cons.prems True Some p1 p2 have eq: "s' = s2" "ev = ev1 @ ev2"
        by auto
      from processPastedImage_quiet[OF p1] Cons.IH[OF p2] eq show ?thesis
        by (simp add: flag_scan_append)
    qed
  qed
qed

lemma handleTextareaPaste_quiet:
  "handleTextareaPaste br cb s = (s', ev) \<Longrightarrow>
     submitting s' = submitting s \<and> playerKills s' = playerKills s \<and> flag_scan b ev = Some b"
  by (cases cb) (auto simp: handleTextareaPaste_def dest: textareaPasteItems_quiet)

lemma handleGlobalPaste_quiet:
  "handleGlobalPaste br a cb s = (s', ev) \<Longrightarrow>
     submitting s' = submitting s \<and> playerKills s' = playerKills s \<and> flag_scan b ev = Some b"
  by (cases cb) (auto simp: handleGlobalPaste_def split: if_splits dest: globalPasteItems_quiet)

text \<open>
  The image file after a paste is the one kept for the last image of the clipboard.
\<close>

lemma processPastedImage_image:
  "imageFile (fst (processPastedImage br img s)) =
     Some (case imageCompression br img of Inr compressedFile \<Rightarrow> compressedFile | Inl err \<Rightarrow> img)"
  by (simp add: processPastedImage_def split: sum.splits)

lemma textareaPasteItems_image:
  assumes kept: "\<And>img. kept img =
      (case imageCompression br img of Inr compressedFile \<Rightarrow> compressedFile | Inl err \<Rightarrow> img)"
  shows "imageFile (fst (textareaPasteItems br items s)) =
     (if image_files items = [] then imageFile s else Some (kept (last (image_files items))))"
proof (induction items arbitrary: s)
  case Nil
  show ?case by simp
next
  case (Cons it items)
  show ?case
  proof (cases "occurs_in ''image'' (item_type it)")
    case False
    with Cons show ?thesis by simp
  next
    case True
    show ?thesis
    proof (cases "getAsFile it")
      case None
      with True Cons show ?thesis by simp
    next
      case (Some img)
      have "fst (textareaPasteItems br (it # items) s) =
          fst (textareaPasteItems br items (fst (processPastedImage br img s)))"
        using True Some by (simp add: split_def Let_def)
      with True Some show ?thesis
        by (simp add: Cons.IH processPastedImage_image kept)
    qed
  qed
qed

lemma globalPasteItems_image:
  assumes kept: "\<And>img. kept img =
      (case imageCompression br img of Inr compressedFile \<Rightarrow> compressedFile | Inl err \<Rightarrow> img)"
  shows "imageFile (fst (globalPasteItems br items s)) =
     (if image_files items = [] then imageFile s else Some (kept (last (image_files items))))"
proof (induction items arbitrary: s)
  case Nil
  show ?case by simp
next
  case (Cons it items)
  show ?case
  proof (cases "occurs_in ''image'' (item_type it)")
    case False
    with Cons show ?thesis by simp
  next
    case True
    show ?thesis
    proof (cases "getAsFile it")
      case None
      with True Cons show ?thesis by simp
    next
      case (Some img)
      have "fst (globalPasteItems br (it # items) s) =
          fst (globalPasteItems br items (fst (processPastedImage br img s)))"
        using True Some by (simp add: split_def Let_def)
      with True Some show ?thesis
        by (simp add: Cons.IH processPastedImage_image kept)
    qed
  qed
qed

lemma upload_of_image:
  assumes "imageFile s = Some g" and "\<not> list_ex isNaN (killsNums rt (playerKills s))"
  shows "uploaded_files (snd (handleSubmit rt be teamId now s)) = [g]"
  using assms
  by (auto simp: submit_defs split: option.splits outcome.splits)

text \<open>
  C3, as stated, fails: when the compression rejects, the handler keeps the file it
  was given, and that file is uploaded.
\<close>

theorem uncompressed_file_is_persisted:
  "imageCompression failing_compressor 8 = Inl (Error ''canvas is tainted'')
   \<and> uploaded_files (snd (handleSubmit example_runtime example_backend (Fin 4) (Fin 1700000000000)
        (fst (handleFileChange failing_compressor (Some [8]) typed_form)))) = [8]"
  by (simp add: submit_defs example_defs handleFileChange_def)

text \<open>
  C3, amended. The file uploaded with a submission is, for an image chosen in the file
  input or pasted (in the textarea or elsewhere; the last image of the clipboard
  when it holds several), the compressed file when the compression succeeds and the
  supplied file itself when the compression fails.
\<close>

theorem persisted_image_is_compressed_or_original:
  assumes "\<not> list_ex isNaN (killsNums rt (playerKills s))"
    and "kept = (case imageCompression br img of Inr compressedFile \<Rightarrow> compressedFile | Inl err \<Rightarrow> img)"
    and "image_files items = earlier @ [img]"
  shows "uploaded_files (snd (handleSubmit rt be teamId now
           (fst (handleFileChange br (Some (img # others)) s)))) = [kept]
       \<and> uploaded_files (snd (handleSubmit rt be teamId now
           (fst (handleTextareaPaste br (Some items) s)))) = [kept]
       \<and> uploaded_files (snd (handleSubmit rt be teamId now
           (fst (handleGlobalPaste br False (Some items) s)))) = [kept]"
proof -
  let ?kept = "\<lambda>i. case imageCompression br i of Inr compressedFile \<Rightarrow> compressedFile | Inl err \<Rightarrow> i"
  have chosen: "imageFile (fst (handleFileChange br (Some (img # others)) s)) = Some kept"
    using assms(2) by (simp add: handleFileChange_def js_index_def split: sum.splits)
  have in_textarea: "imageFile (fst (handleTextareaPaste br (Some items) s)) = Some kept"
    using textareaPasteItems_image[of ?kept br items s] assms(2,3)
    by (simp add: handleTextareaPaste_def split: sum.splits)
  have elsewhere: "imageFile (fst (handleGlobalPaste br False (Some items) s)) = Some kept"
    using globalPasteItems_image[of ?kept br items s] assms(2,3)
    by (simp add: handleGlobalPaste_def split: sum.splits)
  have kills: "playerKills (fst (handleFileChange br (Some (img # others)) s)) = playerKills s"
      "playerKills (fst (handleTextareaPaste br (Some items) s)) = playerKills s"
      "playerKills (fst (handleGlobalPaste br False (Some items) s)) = playerKills s"
    using handleFileChange_quiet[OF surjective_pairing]
      handleTextareaPaste_quiet[OF surjective_pairing]
      handleGlobalPaste_quiet[OF surjective_pairing]
    by blast+
  show ?thesis
    using assms(1) chosen in_textarea elsewhere
    by (simp add: upload_of_image kills)
qed

theorem persisted_image_is_compressed_or_original_witness:
  "\<not> list_ex isNaN (killsNums example_runtime (playerKills typed_form))
   \<and> image_files [image_item, text_item, second_image_item] = [8] @ [9]
   \<and> imageCompression example_browser 9 = Inr 109
   \<and> uploaded_files (snd (handleSubmit example_runtime example_backend (Fin 4) (Fin 1700000000000)
        (fst (handleFileChange example_browser (Some [9, 8]) typed_form)))) = [109]
   \<and> uploaded_files (snd (handleSubmit example_runtime example_backend (Fin 4) (Fin 1700000000000)
        (fst (handleGlobalPaste example_browser False
               (Some [image_item, text_item, second_image_item]) typed_form)))) = [109]
   \<and> imageCompression failing_compressor 9 = Inl (Error ''canvas is tainted'')
   \<and> uploaded_files (snd (handleSubmit example_runtime example_backend (Fin 4) (Fin 1700000000000)
        (fst (handleTextareaPaste failing_compressor
               (Some [image_item, text_item, second_image_item]) typed_form)))) = [9]"
proof -
  have valid: "\<not> list_ex isNaN (killsNums example_runtime (playerKills typed_form))"
    by (simp add: example_defs)
  have images: "image_files [image_item, text_item, second_image_item] = [8] @ [9]"
    by (simp add: example_defs)
  have good: "109 = (case imageCompression example_browser 9 of
      Inr compressedFile \<Rightarrow> compressedFile | Inl err \<Rightarrow> 9)"
    by (simp add: example_defs)
  have bad: "9 = (case imageCompression failing_compressor 9 of
      Inr compressedFile \<Rightarrow> compressedFile | Inl err \<Rightarrow> 9)"
    by (simp add: example_defs)
  from persisted_image_is_compressed_or_original[OF valid good images,
         of example_backend "Fin 4" "Fin 1700000000000" "[8]"]
       persisted_image_is_compressed_or_original[OF valid bad images,
         of example_backend "Fin 4" "Fin 1700000000000"]
       valid images
  show ?thesis
    by (simp add: example_defs)
qed

text \<open>
  C4, as stated, fails for the compression: its error goes to the console and no alert
  is shown.
\<close>

theorem compression_error_shows_no_alert:
  "imageCompression failing_compressor 8 = Inl (Error ''canvas is tainted'')
   \<and> filter is_alert (snd (handleFileChange failing_compressor (Some [8]) typed_form)) = []
   \<and> filter is_alert (snd (processPastedImage failing_compressor 8 typed_form)) = []"
  by (simp add: example_defs handleFileChange_def processPastedImage_def)

text \<open>
  C4, amended. An error of the upload or of the insert (a rejection or an error in the
  answer) is caught by \<open>handleSubmit\<close>, written to the console and shown in an alert,
  and the call is made once. An error of the compression is caught by its handler and
  written to the console, with no alert; the compression is called once.
\<close>

theorem errors_are_surfaced:
  "(imageCompression br img = Inl err \<longrightarrow>
      snd (handleFileChange br (Some (img # others)) st) =
        [ImageCompression img, ConsoleError ''Image compression failed:'' err]
      \<and> snd (processPastedImage br img st) =
        [ImageCompression img, ConsoleError ''Paste compression failed:'' err])
   \<and> (StorageUpload bucket fileName f upsert \<in> set (snd (handleSubmit rt be teamId now s))
        \<and> thrown (upload be fileName f) = Some err \<longrightarrow>
      snd (handleSubmit rt be teamId now s) =
        [PreventDefault, SetSubmitting True, StorageUpload bucket fileName f upsert,
         ConsoleError ''Submission error:'' err,
         Alert ''Failed to submit. Check console for details.'', SetSubmitting False])
   \<and> (TableInsert t row \<in> set (snd (handleSubmit rt be teamId now s))
        \<and> thrown (insert be row) = Some err \<longrightarrow>
      (\<exists>name g. snd (handleSubmit rt be teamId now s) =
        [PreventDefault, SetSubmitting True, StorageUpload ''scoreboards'' name g True,
         StorageGetPublicUrl ''scoreboards'' name, TableInsert t row,
         ConsoleError ''Submission error:'' err,
         Alert ''Failed to submit. Check console for details.'', SetSubmitting False]))"
proof (intro conjI impI)
  assume "imageCompression br img = Inl err"
  then show "snd (handleFileChange br (Some (img # others)) st) =
      [ImageCompression img, ConsoleError ''Image compression failed:'' err]"
    by (simp add: handleFileChange_def js_index_def)
next
  assume "imageCompression br img = Inl err"
  then show "snd (processPastedImage br img st) =
      [ImageCompression img, ConsoleError ''Paste compression failed:'' err]"
    by (simp add: processPastedImage_def)
next
  assume "StorageUpload bucket fileName f upsert \<in> set (snd (handleSubmit rt be teamId now s))
      \<and> thrown (upload be fileName f) = Some err"
  then show "snd (handleSubmit rt be teamId now s) =
      [PreventDefault, SetSubmitting True, StorageUpload bucket fileName f upsert,
       ConsoleError ''Submission error:'' err,
       Alert ''Failed to submit. Check console for details.'', SetSubmitting False]"
    by (auto simp: submit_defs split: option.splits if_splits outcome.splits)
next
  assume "TableInsert t row \<in> set (snd (handleSubmit rt be teamId now s))
      \<and> thrown (insert be row) = Some err"
  then show "\<exists>name g. snd (handleSubmit rt be teamId now s) =
      [PreventDefault, SetSubmitting True, StorageUpload ''scoreboards'' name g True,
       StorageGetPublicUrl ''scoreboards'' name, TableInsert t row,
       ConsoleError ''Submission error:'' err,
       Alert ''Failed to submit. Check console for details.'', SetSubmitting False]"
    by (auto simp: submit_defs split: option.splits if_splits outcome.splits)
qed

theorem errors_are_surfaced_witness:
  "imageCompression failing_compressor 8 = Inl (Error ''canvas is tainted'')
   \<and> snd (handleFileChange failing_compressor (Some [8]) typed_form) =
       [ImageCompression 8, ConsoleError ''Image compression failed:'' (Error ''canvas is tainted'')]
   \<and> thrown (upload upload_refusing_backend ''team4_map1_1700000000000.jpg'' 8)
       = Some (Error ''bucket not found'')
   \<and> snd (handleSubmit example_runtime upload_refusing_backend (Fin 4) (Fin 1700000000000) filled_form) =
       [PreventDefault, SetSubmitting True,
        StorageUpload ''scoreboards'' ''team4_map1_1700000000000.jpg'' 8 True,
        ConsoleError ''Submission error:'' (Error ''bucket not found''),
        Alert ''Failed to submit. Check console for details.'', SetSubmitting False]
   \<and> (\<exists>row. thrown (insert insert_refusing_backend row) = Some (Error ''row violates policy'')
        \<and> snd (handleSubmit example_runtime insert_refusing_backend (Fin 4) (Fin 1700000000000) filled_form) =
           [PreventDefault, SetSubmitting True,
            StorageUpload ''scoreboards'' ''team4_map1_1700000000000.jpg'' 8 True,
            StorageGetPublicUrl ''scoreboards'' ''team4_map1_1700000000000.jpg'',
            TableInsert ''submissions'' row,
            ConsoleError ''Submission error:'' (Error ''row violates policy''),
            Alert ''Failed to submit. Check console for details.'', SetSubmitting False])"
proof -
  have c: "imageCompression failing_compressor 8 = Inl (Error ''canvas is tainted'')"
    by (simp add: example_defs)
  have u: "StorageUpload ''scoreboards'' ''team4_map1_1700000000000.jpg'' 8 True
       \<in> set (snd (handleSubmit example_runtime upload_refusing_backend (Fin 4) (Fin 1700000000000) filled_form))
     \<and> thrown (upload upload_refusing_backend ''team4_map1_1700000000000.jpg'' 8)
         = Some (Error ''bucket not found'')"
    by (simp add: submit_defs example_defs)
  have "\<exists>row. TableInsert ''submissions'' row
       \<in> set (snd (handleSubmit example_runtime insert_refusing_backend (Fin 4) (Fin 1700000000000) filled_form))
     \<and> thrown (insert insert_refusing_backend row) = Some (Error ''row violates policy'')"
    by (simp add: submit_defs example_defs)
  then obtain row where i: "TableInsert ''submissions'' row
       \<in> set (snd (handleSubmit example_runtime insert_refusing_backend (Fin 4) (Fin 1700000000000) filled_form))
     \<and> thrown (insert insert_refusing_backend row) = Some (Error ''row violates policy'')"
    by blast
  have first: "snd (handleFileChange failing_compressor (Some [8]) typed_form) =
      [ImageCompression 8, ConsoleError ''Image compression failed:'' (Error ''canvas is tainted'')]"
    using errors_are_surfaced[where br = failing_compressor and img = 8
        and err = "Error ''canvas is tainted''" and others = "[]" and st = typed_form
        and bucket = "''scoreboards''" and fileName = "''team4_map1_1700000000000.jpg''"
        and f = 8 and upsert = True and t = "''submissions''" and row = row
        and rt = example_runtime and be = example_backend and teamId = "Fin 4"
        and now = "Fin 1700000000000" and s = filled_form] c
    by blast
  have second: "snd (handleSubmit example_runtime upload_refusing_backend (Fin 4) (Fin 1700000000000) filled_form) =
      [PreventDefault, SetSubmitting True,
       StorageUpload ''scoreboards'' ''team4_map1_1700000000000.jpg'' 8 True,
       ConsoleError ''Submission error:'' (Error ''bucket not found''),
       Alert ''Failed to submit. Check console for details.'', SetSubmitting False]"
    using errors_are_surfaced[where bucket = "''scoreboards''"
        and fileName = "''team4_map1_1700000000000.jpg''" and f = 8 and upsert = True
        and rt = example_runtime and be = upload_refusing_backend and teamId = "Fin 4"
        and now = "Fin 1700000000000" and s = filled_form and err = "Error ''bucket not found''"
        and br = failing_compressor and img = 8 and others = "[]" and st = typed_form
        and t = "''submissions''" and row = row] u
    by blast
  have third: "\<exists>name g. snd (handleSubmit example_runtime insert_refusing_backend (Fin 4) (Fin 1700000000000) filled_form) =
      [PreventDefault, SetSubmitting True, StorageUpload ''scoreboards'' name g True,
       StorageGetPublicUrl ''scoreboards'' name, TableInsert ''submissions'' row,
       ConsoleError ''Submission error:'' (Error ''row violates policy''),
       Alert ''Failed to submit. Check console for details.'', SetSubmitting False]"
    using errors_are_surfaced[where t = "''submissions''" and row = row
        and rt = example_runtime and be = insert_refusing_backend and teamId = "Fin 4"
        and now = "Fin 1700000000000" and s = filled_form and err = "Error ''row violates policy''"
        and br = failing_compressor and img = 8 and others = "[]" and st = typed_form
        and bucket = "''scoreboards''" and fileName = "''team4_map1_1700000000000.jpg''"
        and f = 8 and upsert = True] i
    by blast
  from third obtain name g where third': "snd (handleSubmit example_runtime insert_refusing_backend (Fin 4) (Fin 1700000000000) filled_form) =
      [PreventDefault, SetSubmitting True, StorageUpload ''scoreboards'' name g True,
       StorageGetPublicUrl ''scoreboards'' name, TableInsert ''submissions'' row,
       ConsoleError ''Submission error:'' (Error ''row violates policy''),
       Alert ''Failed to submit. Check console for details.'', SetSubmitting False]"
    by blast
  have "hd (tl (tl (snd (handleSubmit example_runtime insert_refusing_backend (Fin 4) (Fin 1700000000000) filled_form))))
      = StorageUpload ''scoreboards'' ''team4_map1_1700000000000.jpg'' 8 True"
    by (simp add: submit_defs example_defs)
  with third' have "name = ''team4_map1_1700000000000.jpg''" "g = 8"
    by simp_all
  with third' i c u first second show ?thesis
    by blast
qed

section \<open>One submission at a time\<close>

text \<open>
  The handlers that choose and paste an image are made of the pieces that the page
  runs turn by turn.
\<close>

lemma handleFileChange_pieces:
  "handleFileChange br files s =
     (case (case files of None \<Rightarrow> None | Some fs \<Rightarrow> js_index fs 0) of
        None \<Rightarrow> (s, [])
      | Some img \<Rightarrow>
          (let (s', ev) = after_compression ''Image compression failed:'' br img s
           in (s', ImageCompression img # ev)))"
  by (simp add: handleFileChange_def after_compression_def split: option.splits sum.splits)

lemma processPastedImage_pieces:
  "processPastedImage br img s =
     (let (s', ev) = after_compression ''Paste compression failed:'' br img s
      in (s', ImageCompression img # ev))"
  by (simp add: processPastedImage_def after_compression_def split: sum.splits)

lemma textareaPasteItems_pieces:
  "textareaPasteItems br items s =
     (case next_image items of
        None \<Rightarrow> (s, [])
      | Some (img, rest) \<Rightarrow>
          (let (s1, ev1) = processPastedImage br img s;
               (s2, ev2) = textareaPasteItems br rest s1
           in (s2, PreventDefault # ev1 @ ev2)))"
  by (induction items arbitrary: s) (simp_all split: option.splits)

lemma globalPasteItems_pieces:
  "globalPasteItems br items s =
     (case next_image items of
        None \<Rightarrow> (s, [])
      | Some (img, rest) \<Rightarrow>
          (let (s1, ev1) = processPastedImage br img s;
               (s2, ev2) = globalPasteItems br rest s1
           in (s2, ev1 @ ev2)))"
  by (induction items arbitrary: s) (simp_all split: option.splits)

lemma after_compression_quiet:
  "after_compression message br img s = (s', ev) \<Longrightarrow>
     submitting s' = submitting s \<and> playerKills s' = playerKills s \<and> flag_scan b ev = Some b"
  by (auto simp: after_compression_def split: sum.splits)

lemma paste_loop_quiet:
  "paste_loop src items = (ws, ev) \<Longrightarrow> flag_scan b ev = Some b"
  by (auto simp: paste_loop_def split: option.splits if_splits)

lemma checkValidity_kills:
  assumes "checkValidity rt s" and "length (playerKills s) = 3"
  shows "\<not> list_ex isNaN (killsNums rt (playerKills s))"
proof -
  from assms(2) obtain k1 k2 k3 where ks: "playerKills s = [k1, k2, k3]"
    by (auto simp: numeral_3_eq_3 length_Suc_conv)
  have "\<not> isNaN n" if "number_input_valid 0 n" for n
    using that by (cases n) (simp_all add: number_input_valid_def)
  with assms(1) ks show ?thesis
    by (auto simp: checkValidity_def killsNums_def js_index_def)
qed

lemma fire_page_ok:
  assumes "page_ok p" and "fire rt teamId u a p = Some p'"
  shows "page_ok p'"
proof (cases a)
  case (EditMapNumber v)
  with assms show ?thesis by (auto simp: page_ok_def onChangeMapNumber_def split: if_splits)
next
  case (EditPlacement v)
  with assms show ?thesis by (auto simp: page_ok_def onChangePlacement_def split: if_splits)
next
  case (EditKills idx v)
  with assms show ?thesis by (auto simp: page_ok_def onChangeKills_def split: if_splits)
next
  case (ChooseFile files)
  with assms show ?thesis
    by (auto simp: page_ok_def flag_scan_append split: option.splits)
next
  case (PasteInTextarea cb)
  show ?thesis
  proof (cases cb)
    case None
    with assms PasteInTextarea show ?thesis by simp
  next
    case (Some items)
    obtain ws ev where h: "paste_loop Textarea items = (ws, ev)"
      by (cases "paste_loop Textarea items")
    with assms PasteInTextarea Some paste_loop_quiet[OF h] show ?thesis
      by (auto simp: page_ok_def flag_scan_append)
  qed
next
  case (PasteElsewhere act cb)
  show ?thesis
  proof (cases "act \<or> cb = None")
    case True
    with assms PasteElsewhere show ?thesis by (auto split: if_splits)
  next
    case False
    then obtain items where items: "cb = Some items" "\<not> act"
      by auto
    obtain ws ev where h: "paste_loop Elsewhere items = (ws, ev)"
      by (cases "paste_loop Elsewhere items")
    with assms PasteElsewhere items paste_loop_quiet[OF h] show ?thesis
      by (auto simp: page_ok_def flag_scan_append)
  qed
next
  case (CompressionAnswers i br)
  with assms obtain src img rest where w: "js_index (compressions p) i = Some (Compressing src img rest)"
    by (auto split: option.splits waiting.splits)
  obtain s' ev where h: "after_compression (message_of src) br img (form p) = (s', ev)"
    by (cases "after_compression (message_of src) br img (form p)")
  obtain ws ev' where l: "paste_loop src rest = (ws, ev')"
    by (cases "paste_loop src rest")
  from assms CompressionAnswers w h l after_compression_quiet[OF h] paste_loop_quiet[OF l]
  show ?thesis
    by (auto simp: page_ok_def flag_scan_append)
next
  case (PressSubmit now)
  with assms show ?thesis
    by (auto simp: page_ok_def render_def submit_begin_def Let_def flag_scan_append
             split: if_splits option.splits)
next
  case (UploadAnswers i answer)
  with assms show ?thesis
    by (auto simp: page_ok_def js_index_def after_upload_def submit_failed_def Let_def
                   flag_scan_append drop_nth_def
             split: if_splits option.splits flight.splits outcome.splits)
next
  case (InsertAnswers i answer)
  with assms show ?thesis
    by (auto simp: page_ok_def js_index_def after_insert_def submit_failed_def Let_def
                   flag_scan_append drop_nth_def
             split: if_splits option.splits flight.splits outcome.splits)
qed

text \<open>
  A submit event keeps a page in order whether or not the form was validated first:
  the order of the page rests on the disabled button alone.
\<close>

lemma unvalidated_submit_page_ok:
  assumes "page_ok p" and "\<not> submitDisabled (render (form p))"
    and "submit_begin rt teamId now (form p) = (s', ev, c)"
  shows "page_ok (p\<lparr>form := s',
           flights := flights p @ (case c of None \<Rightarrow> [] | Some c' \<Rightarrow> [AwaitingUpload c']),
           emitted := emitted p @ ev\<rparr>)"
  using assms
  by (auto simp: page_ok_def render_def submit_begin_def Let_def flag_scan_append
           split: if_splits option.splits)

lemma run_page_ok:
  "page_ok p \<Longrightarrow> run rt teamId u acts p = Some p' \<Longrightarrow> page_ok p'"
  by (induction acts arbitrary: p) (auto split: option.splits dest: fire_page_ok)

lemma start_page_ok: "page_ok start_page"
  by (simp add: page_ok_def start_page_def initial_def)

lemma run_append:
  "run rt teamId u (as @ bs) p =
     (case run rt teamId u as p of None \<Rightarrow> None | Some p' \<Rightarrow> run rt teamId u bs p')"
  by (induction as arbitrary: p) (auto split: option.splits)

lemma run_then_fire:
  "run rt teamId u as p = Some p' \<Longrightarrow> fire rt teamId u a p' = Some p'' \<Longrightarrow>
     run rt teamId u (as @ [a]) p = Some p''"
  by (simp add: run_append)

text \<open>
  Compressions answer in any order: of two files chosen one after the other, the one
  whose compression answers last is the one that stays.
\<close>

lemma later_answer_stays:
  "\<exists>p. run example_runtime (Fin 4) (getPublicUrl example_backend)
         [ChooseFile (Some [8]), ChooseFile (Some [9]),
          CompressionAnswers 1 example_browser, CompressionAnswers 0 example_browser]
         start_page = Some p
       \<and> imageFile (form p) = Some 108 \<and> compressions p = []"
  by (simp add: start_page_def after_compression_def paste_loop_def example_defs)

text \<open>
  When nothing comes in between, the turns of a submission on the page add up to
  \<open>handleSubmit\<close>: the press, the answer of the backend to the upload and, if that is
  no error, its answer to the insert.
\<close>

lemma page_runs_handleSubmit:
  assumes "page_ok p" and "flights p = []" and "checkValidity rt (form p)"
    and "imageFile (form p) = Some f"
    and "fileName = fileNameOf rt teamId (mapNumber (form p)) now"
    and "row = \<lparr> team_id = teamId, map_number = mapNumber (form p),
                   player1_kills = js_index (killsNums rt (playerKills (form p))) 0,
                   player2_kills = js_index (killsNums rt (playerKills (form p))) 1,
                   player3_kills = js_index (killsNums rt (playerKills (form p))) 2,
                   placement_of = placement (form p),
                   scoreboard_image_url = getPublicUrl be fileName \<rparr>"
  shows "run rt teamId (getPublicUrl be)
           (PressSubmit now # UploadAnswers 0 (upload be fileName f) #
              (if thrown (upload be fileName f) = None then [InsertAnswers 0 (insert be row)] else []))
           p =
         Some (p\<lparr>form := fst (handleSubmit rt be teamId now (form p)),
                emitted := emitted p @ snd (handleSubmit rt be teamId now (form p))\<rparr>)"
proof -
  from assms(1,2) have idle: "\<not> submitting (form p)" and three: "length (playerKills (form p)) = 3"
    by (simp_all add: page_ok_def)
  from assms(3) three have valid: "\<not> list_ex isNaN (killsNums rt (playerKills (form p)))"
    by (rule checkValidity_kills)
  have first: "js_index [x] 0 = Some x" for x :: "'a flight"
    by (simp add: js_index_def)
  have same: "p\<lparr>form := s, flights := [], emitted := e\<rparr> = p\<lparr>form := s, emitted := e\<rparr>" for s e
    using assms(2) by simp
  show ?thesis
  proof (cases "upload be fileName f" rule: thrown.cases)
    case (1 err)
    with assms(2,3,4,5) idle valid show ?thesis
      by (simp add: render_def submit_defs first drop_nth_def)
  next
    case (2 err)
    with assms(2,3,4,5) idle valid show ?thesis
      by (simp add: render_def submit_defs first drop_nth_def)
  next
    case 3
    with assms(2,3,4,5,6) idle valid show ?thesis
      by (cases "insert be row" rule: thrown.cases)
         (simp_all add: render_def submit_defs first drop_nth_def)
  qed
qed

text \<open>
  Likewise for an image: the choice and the answer of the compression add up to
  \<open>handleFileChange\<close>, and a paste and the answers to its compressions, one for each
  image of the clipboard, add up to \<open>handleTextareaPaste\<close> or to
  \<open>handleGlobalPaste\<close>.
\<close>

lemma page_runs_handleFileChange:
  "run rt teamId u
     [ChooseFile (Some (img # others)), CompressionAnswers (length (compressions p)) br] p =
   Some (p\<lparr>form := fst (handleFileChange br (Some (img # others)) (form p)),
          emitted := emitted p @ snd (handleFileChange br (Some (img # others)) (form p))\<rparr>)"
  by (simp add: handleFileChange_pieces js_index_def paste_loop_def split_def Let_def)

lemma next_image_shorter:
  "next_image items = Some (g, r) \<Longrightarrow> length r < length items"
  by (induction items) (auto split: if_splits option.splits)

lemma image_files_pieces:
  "image_files items = (case next_image items of None \<Rightarrow> [] | Some (g, r) \<Rightarrow> g # image_files r)"
  by (induction items) (simp_all split: option.splits)

lemma answers_run_textarea_loop:
  assumes "compressions p = cs @ Compressing Textarea img rest # cs'"
  shows "run rt teamId u
           (replicate (Suc (length (image_files rest))) (CompressionAnswers (length cs) br)) p =
         Some (p\<lparr>form := fst (textareaPasteItems br rest (fst (processPastedImage br img (form p)))),
                compressions := cs @ cs',
                emitted := emitted p @ tl (snd (processPastedImage br img (form p)))
                  @ snd (textareaPasteItems br rest (fst (processPastedImage br img (form p))))\<rparr>)"
  using assms
proof (induction rest arbitrary: p img rule: length_induct)
  case (1 rest)
  let ?s1 = "fst (processPastedImage br img (form p))"
  let ?ev1 = "tl (snd (processPastedImage br img (form p)))"
  have at: "js_index (compressions p) (length cs) = Some (Compressing Textarea img rest)"
    using "1.prems" by (simp add: js_index_def)
  have resumed: "after_compression (message_of Textarea) br img (form p) = (?s1, ?ev1)"
    by (simp add: processPastedImage_pieces split_def Let_def)
  have around: "take (length cs) (compressions p) = cs"
      "drop (Suc (length cs)) (compressions p) = cs'"
    using "1.prems" by simp_all
  show ?case
  proof (cases "next_image rest")
    case None
    then have "image_files rest = []" "textareaPasteItems br rest ?s1 = (?s1, [])"
      by (simp_all add: image_files_pieces textareaPasteItems_pieces[of br rest])
    with None at resumed around show ?thesis
      by (simp add: paste_loop_def)
  next
    case (Some a)
    then obtain g r where found: "next_image rest = Some (g, r)"
      by (cases a) simp
    define p' where "p' = p\<lparr>form := ?s1,
        compressions := cs @ Compressing Textarea g r # cs',
        emitted := emitted p @ ?ev1 @ [PreventDefault, ImageCompression g]\<rparr>"
    have step: "fire rt teamId u (CompressionAnswers (length cs) br) p = Some p'"
      using at resumed around found by (simp add: paste_loop_def p'_def)
    have waiting: "compressions p' = cs @ Compressing Textarea g r # cs'"
      by (simp add: p'_def)
    from found have "length r < length rest"
      by (rule next_image_shorter)
    with "1.IH" waiting have later:
      "run rt teamId u (replicate (Suc (length (image_files r))) (CompressionAnswers (length cs) br)) p' =
         Some (p'\<lparr>form := fst (textareaPasteItems br r (fst (processPastedImage br g (form p')))),
                compressions := cs @ cs',
                emitted := emitted p' @ tl (snd (processPastedImage br g (form p')))
                  @ snd (textareaPasteItems br r (fst (processPastedImage br g (form p'))))\<rparr>)"
      by blast
    have files: "image_files rest = g # image_files r"
      using found by (simp add: image_files_pieces[of rest])
    have loop: "textareaPasteItems br rest ?s1 =
        (fst (textareaPasteItems br r (fst (processPastedImage br g ?s1))),
         PreventDefault # snd (processPastedImage br g ?s1)
           @ snd (textareaPasteItems br r (fst (processPastedImage br g ?s1))))"
      using found by (simp add: textareaPasteItems_pieces[of br rest] split_def Let_def)
    have head: "snd (processPastedImage br g ?s1) =
        ImageCompression g # tl (snd (processPastedImage br g ?s1))"
      by (simp add: processPastedImage_pieces split_def Let_def)
    have first: "run rt teamId u
        (replicate (Suc (length (image_files rest))) (CompressionAnswers (length cs) br)) p =
      run rt teamId u
        (replicate (Suc (length (image_files r))) (CompressionAnswers (length cs) br)) p'"
      using step files by simp
    have same: "p'\<lparr>form := fst (textareaPasteItems br r (fst (processPastedImage br g (form p')))),
                compressions := cs @ cs',
                emitted := emitted p' @ tl (snd (processPastedImage br g (form p')))
                  @ snd (textareaPasteItems br r (fst (processPastedImage br g (form p'))))\<rparr> =
        p\<lparr>form := fst (textareaPasteItems br rest ?s1),
                compressions := cs @ cs',
                emitted := emitted p @ ?ev1 @ snd (textareaPasteItems br rest ?s1)\<rparr>"
      unfolding loop using head by (simp add: p'_def)
    show ?thesis
      by (simp only: first later same)
  qed
qed

lemma page_runs_handleTextareaPaste:
  "run rt teamId u
     (PasteInTextarea (Some items) #
        replicate (length (image_files items)) (CompressionAnswers (length (compressions p)) br)) p =
   Some (p\<lparr>form := fst (handleTextareaPaste br (Some items) (form p)),
          emitted := emitted p @ snd (handleTextareaPaste br (Some items) (form p))\<rparr>)"
proof (cases "next_image items")
  case None
  then show ?thesis
    by (simp add: handleTextareaPaste_def paste_loop_def image_files_pieces[of items]
          textareaPasteItems_pieces[of br items])
next
  case (Some a)
  then obtain img rest where found: "next_image items = Some (img, rest)"
    by (cases a) simp
  define p' where "p' = p\<lparr>compressions := compressions p @ [Compressing Textarea img rest],
      emitted := emitted p @ [PreventDefault, ImageCompression img]\<rparr>"
  have step: "fire rt teamId u (PasteInTextarea (Some items)) p = Some p'"
    using found by (simp add: paste_loop_def p'_def)
  have waiting: "compressions p' = compressions p @ Compressing Textarea img rest # []"
    by (simp add: p'_def)
  have head: "snd (processPastedImage br img (form p)) =
      ImageCompression img # tl (snd (processPastedImage br img (form p)))"
    by (simp add: processPastedImage_pieces split_def Let_def)
  have first: "run rt teamId u
      (PasteInTextarea (Some items) #
         replicate (length (image_files items)) (CompressionAnswers (length (compressions p)) br)) p =
    run rt teamId u
      (replicate (Suc (length (image_files rest))) (CompressionAnswers (length (compressions p)) br)) p'"
    using step found by (simp add: image_files_pieces[of items])
  note later = answers_run_textarea_loop[OF waiting, of rt teamId u br]
  have same: "p'\<lparr>form := fst (textareaPasteItems br rest (fst (processPastedImage br img (form p')))),
        compressions := compressions p @ [],
        emitted := emitted p' @ tl (snd (processPastedImage br img (form p')))
          @ snd (textareaPasteItems br rest (fst (processPastedImage br img (form p'))))\<rparr> =
      p\<lparr>form := fst (handleTextareaPaste br (Some items) (form p)),
        emitted := emitted p @ snd (handleTextareaPaste br (Some items) (form p))\<rparr>"
    using found head
    by (simp add: p'_def handleTextareaPaste_def textareaPasteItems_pieces[of br items] split_def
          Let_def)
  show ?thesis
    by (simp only: first later same)
qed

lemma answers_run_global_loop:
  assumes "compressions p = cs @ Compressing Elsewhere img rest # cs'"
  shows "run rt teamId u
           (replicate (Suc (length (image_files rest))) (CompressionAnswers (length cs) br)) p =
         Some (p\<lparr>form := fst (globalPasteItems br rest (fst (processPastedImage br img (form p)))),
                compressions := cs @ cs',
                emitted := emitted p @ tl (snd (processPastedImage br img (form p)))
                  @ snd (globalPasteItems br rest (fst (processPastedImage br img (form p))))\<rparr>)"
  using assms
proof (induction rest arbitrary: p img rule: length_induct)
  case (1 rest)
  let ?s1 = "fst (processPastedImage br img (form p))"
  let ?ev1 = "tl (snd (processPastedImage br img (form p)))"
  have at: "js_index (compressions p) (length cs) = Some (Compressing Elsewhere img rest)"
    using "1.prems" by (simp add: js_index_def)
  have resumed: "after_compression (message_of Elsewhere) br img (form p) = (?s1, ?ev1)"
    by (simp add: processPastedImage_pieces split_def Let_def)
  have around: "take (length cs) (compressions p) = cs"
      "drop (Suc (length cs)) (compressions p) = cs'"
    using "1.prems" by simp_all
  show ?case
  proof (cases "next_image rest")
    case None
    then have "image_files rest = []" "globalPasteItems br rest ?s1 = (?s1, [])"
      by (simp_all add: image_files_pieces globalPasteItems_pieces[of br rest])
    with None at resumed around show ?thesis
      by (simp add: paste_loop_def)
  next
    case (Some a)
    then obtain g r where found: "next_image rest = Some (g, r)"
      by (cases a) simp
    define p' where "p' = p\<lparr>form := ?s1,
        compressions := cs @ Compressing Elsewhere g r # cs',
        emitted := emitted p @ ?ev1 @ [ImageCompression g]\<rparr>"
    have step: "fire rt teamId u (CompressionAnswers (length cs) br) p = Some p'"
      using at resumed around found by (simp add: paste_loop_def p'_def)
    have waiting: "compressions p' = cs @ Compressing Elsewhere g r # cs'"
      by (simp add: p'_def)
    from found have "length r < length rest"
      by (rule next_image_shorter)
    with "1.IH" waiting have later:
      "run rt teamId u (replicate (Suc (length (image_files r))) (CompressionAnswers (length cs) br)) p' =
         Some (p'\<lparr>form := fst (globalPasteItems br r (fst (processPastedImage br g (form p')))),
                compressions := cs @ cs',
                emitted := emitted p' @ tl (snd (processPastedImage br g (form p')))
                  @ snd (globalPasteItems br r (fst (processPastedImage br g (form p'))))\<rparr>)"
      by blast
    have files: "image_files rest = g # image_files r"
      using found by (simp add: image_files_pieces[of rest])
    have loop: "globalPasteItems br rest ?s1 =
        (fst (globalPasteItems br r (fst (processPastedImage br g ?s1))),
         snd (processPastedImage br g ?s1)
           @ snd (globalPasteItems br r (fst (processPastedImage br g ?s1))))"
      using found by (simp add: globalPasteItems_pieces[of br rest] split_def Let_def)
    have head: "snd (processPastedImage br g ?s1) =
        ImageCompression g # tl (snd (processPastedImage br g ?s1))"
      by (simp add: processPastedImage_pieces split_def Let_def)
    have first: "run rt teamId u
        (replicate (Suc (length (image_files rest))) (CompressionAnswers (length cs) br)) p =
      run rt teamId u
        (replicate (Suc (length (image_files r))) (CompressionAnswers (length cs) br)) p'"
      using step files by simp
    have same: "p'\<lparr>form := fst (globalPasteItems br r (fst (processPastedImage br g (form p')))),
                compressions := cs @ cs',
                emitted := emitted p' @ tl (snd (processPastedImage br g (form p')))
                  @ snd (globalPasteItems br r (fst (processPastedImage br g (form p'))))\<rparr> =
        p\<lparr>form := fst (globalPasteItems br rest ?s1),
                compressions := cs @ cs',
                emitted := emitted p @ ?ev1 @ snd (globalPasteItems br rest ?s1)\<rparr>"
      unfolding loop using head by (simp add: p'_def)
    show ?thesis
      by (simp only: first later same)
  qed
qed

lemma page_runs_handleGlobalPaste:
  "run rt teamId u
     (PasteElsewhere False (Some items) #
        replicate (length (image_files items)) (CompressionAnswers (length (compressions p)) br)) p =
   Some (p\<lparr>form := fst (handleGlobalPaste br False (Some items) (form p)),
          emitted := emitted p @ snd (handleGlobalPaste br False (Some items) (form p))\<rparr>)"
proof (cases "next_image items")
  case None
  then show ?thesis
    by (simp add: handleGlobalPaste_def paste_loop_def image_files_pieces[of items]
          globalPasteItems_pieces[of br items])
next
  case (Some a)
  then obtain img rest where found: "next_image items = Some (img, rest)"
    by (cases a) simp
  define p' where "p' = p\<lparr>compressions := compressions p @ [Compressing Elsewhere img rest],
      emitted := emitted p @ [ImageCompression img]\<rparr>"
  have step: "fire rt teamId u (PasteElsewhere False (Some items)) p = Some p'"
    using found by (simp add: paste_loop_def p'_def)
  have waiting: "compressions p' = compressions p @ Compressing Elsewhere img rest # []"
    by (simp add: p'_def)
  have head: "snd (processPastedImage br img (form p)) =
      ImageCompression img # tl (snd (processPastedImage br img (form p)))"
    by (simp add: processPastedImage_pieces split_def Let_def)
  have first: "run rt teamId u
      (PasteElsewhere False (Some items) #
         replicate (length (image_files items)) (CompressionAnswers (length (compressions p)) br)) p =
    run rt teamId u
      (replicate (Suc (length (image_files rest))) (CompressionAnswers (length (compressions p)) br)) p'"
    using step found by (simp add: image_files_pieces[of items])
  note later = answers_run_global_loop[OF waiting, of rt teamId u br]
  have same: "p'\<lparr>form := fst (globalPasteItems br rest (fst (processPastedImage br img (form p')))),
        compressions := compressions p @ [],
        emitted := emitted p' @ tl (snd (processPastedImage br img (form p')))
          @ snd (globalPasteItems br rest (fst (processPastedImage br img (form p'))))\<rparr> =
      p\<lparr>form := fst (handleGlobalPaste br False (Some items) (form p)),
        emitted := emitted p @ snd (handleGlobalPaste br False (Some items) (form p))\<rparr>"
    using found head
    by (simp add: p'_def handleGlobalPaste_def globalPasteItems_pieces[of br items] split_def
          Let_def)
  show ?thesis
    by (simp only: first later same)
qed

text \<open>
  C6. In every page the component can get to, whatever the order of edits, pastes,
  presses and answers:
  \<^item> at most one submission is waiting, the submitting flag is true exactly when one
    is, and the submit button is disabled exactly when the flag is true;
  \<^item> read in order, everything emitted shows the flag set to true before any
    backend call and no backend call after it was set back to false;
  \<^item> a press of the button while a submission is waiting changes nothing; a press
    on a valid form with an image and nothing waiting sets the flag to true and
    then calls the upload;
  \<^item> the answer to the upload sets the flag back to false when it is a rejection or
    an error, and otherwise leaves it true and calls the insert; the answer to the
    insert, whatever it is, sets the flag back to false; after either reset nothing
    is waiting.
  A run of \<open>handleSubmit\<close> on its own, from any state, leaves the flag false, and if
  it called the backend it wrote the flag twice, true before the calls and false
  after them.
\<close>

theorem one_submission_in_flight:
  assumes "run rt teamId publicUrlOf acts start_page = Some p"
  shows "length (flights p) \<le> 1
       \<and> submitting (form p) = (flights p \<noteq> [])
       \<and> submitDisabled (render (form p)) = submitting (form p)
       \<and> flag_scan False (emitted p) = Some (submitting (form p))
       \<and> (flights p \<noteq> [] \<longrightarrow> fire rt teamId publicUrlOf (PressSubmit now) p = Some p)
       \<and> (flights p = [] \<and> checkValidity rt (form p) \<and> imageFile (form p) = Some f \<longrightarrow>
            (\<exists>c. c_imageFile c = f
               \<and> fire rt teamId publicUrlOf (PressSubmit now) p =
                   Some (p\<lparr>form := (form p)\<lparr>submitting := True\<rparr>,
                          flights := [AwaitingUpload c],
                          emitted := emitted p @
                            [PreventDefault, SetSubmitting True,
                             StorageUpload ''scoreboards'' (c_fileName c) f True]\<rparr>)))
       \<and> (flights p = [AwaitingUpload c] \<and> thrown answer = Some err \<longrightarrow>
            fire rt teamId publicUrlOf (UploadAnswers 0 answer) p =
              Some (p\<lparr>form := (form p)\<lparr>submitting := False\<rparr>,
                     flights := [],
                     emitted := emitted p @
                       [ConsoleError ''Submission error:'' err,
                        Alert ''Failed to submit. Check console for details.'',
                        SetSubmitting False]\<rparr>))
       \<and> (flights p = [AwaitingUpload c] \<and> thrown answer = None \<longrightarrow>
            fire rt teamId publicUrlOf (UploadAnswers 0 answer) p =
              Some (p\<lparr>flights := [AwaitingInsert],
                     emitted := emitted p @
                       [StorageGetPublicUrl ''scoreboards'' (c_fileName c),
                        TableInsert ''submissions''
                          \<lparr> team_id = c_teamId c, map_number = c_mapNumber c,
                            player1_kills = js_index (c_killsNums c) 0,
                            player2_kills = js_index (c_killsNums c) 1,
                            player3_kills = js_index (c_killsNums c) 2,
                            placement_of = c_placement c,
                            scoreboard_image_url = publicUrlOf (c_fileName c) \<rparr>]\<rparr>))
       \<and> (flights p = [AwaitingInsert] \<longrightarrow>
            (\<exists>p'. fire rt teamId publicUrlOf (InsertAnswers 0 answer) p = Some p'
               \<and> \<not> submitting (form p') \<and> flights p' = []
               \<and> set_submitting_calls (emitted p') = set_submitting_calls (emitted p) @ [False]
               \<and> backend_calls (emitted p') = backend_calls (emitted p)))
       \<and> flag_scan False (snd (handleSubmit rt be teamId now s)) = Some False
       \<and> (backend_calls (snd (handleSubmit rt be teamId now s)) \<noteq> [] \<longrightarrow>
            set_submitting_calls (snd (handleSubmit rt be teamId now s)) = [True, False]
            \<and> \<not> submitting (fst (handleSubmit rt be teamId now s)))"
proof -
  from run_page_ok[OF start_page_ok assms] have ok: "page_ok p" .
  from ok have one: "length (flights p) \<le> 1" and flag: "submitting (form p) = (flights p \<noteq> [])"
    and log: "flag_scan False (emitted p) = Some (submitting (form p))"
    and three: "length (playerKills (form p)) = 3"
    by (simp_all add: page_ok_def)
  have only_waiting: "js_index [x] 0 = Some x" for x :: "'a flight"
    by (simp add: js_index_def)
  have button: "submitDisabled (render (form p)) = submitting (form p)"
    by (simp add: render_def)
  have again: "flights p \<noteq> [] \<longrightarrow> fire rt teamId publicUrlOf (PressSubmit now) p = Some p"
    using flag by (simp add: render_def)
  have press: "flights p = [] \<and> checkValidity rt (form p) \<and> imageFile (form p) = Some f \<longrightarrow>
      (\<exists>c. c_imageFile c = f
         \<and> fire rt teamId publicUrlOf (PressSubmit now) p =
             Some (p\<lparr>form := (form p)\<lparr>submitting := True\<rparr>,
                    flights := [AwaitingUpload c],
                    emitted := emitted p @
                      [PreventDefault, SetSubmitting True,
                       StorageUpload ''scoreboards'' (c_fileName c) f True]\<rparr>))"
  proof
    assume h: "flights p = [] \<and> checkValidity rt (form p) \<and> imageFile (form p) = Some f"
    with three have "\<not> list_ex isNaN (killsNums rt (playerKills (form p)))"
      by (simp add: checkValidity_kills)
    with h flag show "\<exists>c. c_imageFile c = f
         \<and> fire rt teamId publicUrlOf (PressSubmit now) p =
             Some (p\<lparr>form := (form p)\<lparr>submitting := True\<rparr>,
                    flights := [AwaitingUpload c],
                    emitted := emitted p @
                      [PreventDefault, SetSubmitting True,
                       StorageUpload ''scoreboards'' (c_fileName c) f True]\<rparr>)"
      by (intro exI[of _ "\<lparr> c_imageFile = f,
            c_fileName = fileNameOf rt teamId (mapNumber (form p)) now, c_teamId = teamId,
            c_mapNumber = mapNumber (form p),
            c_killsNums = killsNums rt (playerKills (form p)),
            c_placement = placement (form p) \<rparr>"])
         (simp add: render_def submit_begin_def Let_def)
  qed
  have refused: "flights p = [AwaitingUpload c] \<and> thrown answer = Some err \<longrightarrow>
      fire rt teamId publicUrlOf (UploadAnswers 0 answer) p =
        Some (p\<lparr>form := (form p)\<lparr>submitting := False\<rparr>,
               flights := [],
               emitted := emitted p @
                 [ConsoleError ''Submission error:'' err,
                  Alert ''Failed to submit. Check console for details.'',
                  SetSubmitting False]\<rparr>)"
    by (cases answer rule: thrown.cases)
       (simp_all add: only_waiting after_upload_def submit_failed_def drop_nth_def)
  have accepted: "flights p = [AwaitingUpload c] \<and> thrown answer = None \<longrightarrow>
      fire rt teamId publicUrlOf (UploadAnswers 0 answer) p =
        Some (p\<lparr>flights := [AwaitingInsert],
               emitted := emitted p @
                 [StorageGetPublicUrl ''scoreboards'' (c_fileName c),
                  TableInsert ''submissions''
                    \<lparr> team_id = c_teamId c, map_number = c_mapNumber c,
                      player1_kills = js_index (c_killsNums c) 0,
                      player2_kills = js_index (c_killsNums c) 1,
                      player3_kills = js_index (c_killsNums c) 2,
                      placement_of = c_placement c,
                      scoreboard_image_url = publicUrlOf (c_fileName c) \<rparr>]\<rparr>)"
    by (cases answer rule: thrown.cases)
       (simp_all add: only_waiting after_upload_def Let_def)
  have inserted: "flights p = [AwaitingInsert] \<longrightarrow>
      (\<exists>p'. fire rt teamId publicUrlOf (InsertAnswers 0 answer) p = Some p'
         \<and> \<not> submitting (form p') \<and> flights p' = []
         \<and> set_submitting_calls (emitted p') = set_submitting_calls (emitted p) @ [False]
         \<and> backend_calls (emitted p') = backend_calls (emitted p))"
    by (cases answer rule: thrown.cases)
       (simp_all add: only_waiting after_insert_def submit_failed_def drop_nth_def
          set_submitting_calls_def backend_calls_def)
  have alone: "flag_scan False (snd (handleSubmit rt be teamId now s)) = Some False"
    by (simp add: handleSubmit_straight_line Let_def split: option.splits)
  have twice: "backend_calls (snd (handleSubmit rt be teamId now s)) \<noteq> [] \<longrightarrow>
      set_submitting_calls (snd (handleSubmit rt be teamId now s)) = [True, False]
      \<and> \<not> submitting (fst (handleSubmit rt be teamId now s))"
    by (simp add: handleSubmit_straight_line Let_def backend_calls_def set_submitting_calls_def
          split: option.splits)
  from one flag button log again press refused accepted inserted alone twice
  show ?thesis
    by blast
qed

theorem one_submission_in_flight_witness:
  "\<exists>p0 p1 p2 p3 p4 c.
     run example_runtime (Fin 4) (getPublicUrl example_backend) ready_actions start_page = Some p0
     \<and> flights p0 = [] \<and> checkValidity example_runtime (form p0)
     \<and> imageFile (form p0) = Some 108
     \<and> fire example_runtime (Fin 4) (getPublicUrl example_backend)
          (PressSubmit (Fin 1700000000000)) p0 = Some p1
     \<and> flights p1 = [AwaitingUpload c] \<and> submitting (form p1)
     \<and> submitDisabled (render (form p1))
     \<and> fire example_runtime (Fin 4) (getPublicUrl example_backend)
          (PressSubmit (Fin 1700000000001)) p1 = Some p1
     \<and> fire example_runtime (Fin 4) (getPublicUrl example_backend)
          (UploadAnswers 0 (Resolves (Some (Error ''bucket not found'')))) p1 = Some p2
     \<and> \<not> submitting (form p2) \<and> flights p2 = []
     \<and> fire example_runtime (Fin 4) (getPublicUrl example_backend)
          (UploadAnswers 0 (Resolves None)) p1 = Some p3
     \<and> flights p3 = [AwaitingInsert] \<and> submitting (form p3)
     \<and> fire example_runtime (Fin 4) (getPublicUrl example_backend)
          (InsertAnswers 0 (Rejects (Error ''connection lost''))) p3 = Some p4
     \<and> \<not> submitting (form p4) \<and> flights p4 = []
     \<and> backend_calls (snd (handleSubmit example_runtime example_backend (Fin 4)
          (Fin 1700000000000) filled_form)) \<noteq> []
     \<and> set_submitting_calls (snd (handleSubmit example_runtime example_backend (Fin 4)
          (Fin 1700000000000) filled_form)) = [True, False]"
proof -
  let ?fire = "fire example_runtime (Fin 4) (getPublicUrl example_backend)"
  let ?run = "run example_runtime (Fin 4) (getPublicUrl example_backend)"
  have "\<exists>p0. ?run ready_actions (start_page :: nat page) = Some p0
      \<and> flights p0 = [] \<and> checkValidity example_runtime (form p0)
      \<and> imageFile (form p0) = Some 108"
    by (simp add: ready_actions_def start_page_def onChangePlacement_def onChangeKills_def
          paste_loop_def after_compression_def checkValidity_def number_input_valid_def
          number_input_values_def number_text_def exponent_text_def is_digit_def
          placement_options_def example_defs)
  then obtain p0 :: "nat page" where r0: "?run ready_actions start_page = Some p0"
      and h0: "flights p0 = [] \<and> checkValidity example_runtime (form p0)
        \<and> imageFile (form p0) = Some 108"
    by blast
  from one_submission_in_flight[OF r0, where now = "Fin 1700000000000" and f = 108
      and c = undefined and answer = "Resolves None" and err = "Error []"
      and be = example_backend and s = filled_form] h0
  obtain c where f1: "?fire (PressSubmit (Fin 1700000000000)) p0 =
      Some (p0\<lparr>form := (form p0)\<lparr>submitting := True\<rparr>,
              flights := [AwaitingUpload c],
              emitted := emitted p0 @
                [PreventDefault, SetSubmitting True,
                 StorageUpload ''scoreboards'' (c_fileName c) 108 True]\<rparr>)"
    by blast
  define p1 where "p1 = p0\<lparr>form := (form p0)\<lparr>submitting := True\<rparr>,
              flights := [AwaitingUpload c],
              emitted := emitted p0 @
                [PreventDefault, SetSubmitting True,
                 StorageUpload ''scoreboards'' (c_fileName c) 108 True]\<rparr>"
  have h1: "flights p1 = [AwaitingUpload c]" "flights p1 \<noteq> []"
    by (simp_all add: p1_def)
  from f1 have f1': "?fire (PressSubmit (Fin 1700000000000)) p0 = Some p1"
    by (simp add: p1_def)
  from run_then_fire[OF r0 f1'] have r1:
    "?run (ready_actions @ [PressSubmit (Fin 1700000000000)]) start_page = Some p1" .
  note refused = one_submission_in_flight[OF r1, where now = "Fin 1700000000001" and c = c
      and f = 108 and answer = "Resolves (Some (Error ''bucket not found''))"
      and err = "Error ''bucket not found''" and be = example_backend and s = filled_form]
  note accepted = one_submission_in_flight[OF r1, where now = "Fin 1700000000001" and c = c
      and f = 108 and answer = "Resolves None"
      and err = "Error ''bucket not found''" and be = example_backend and s = filled_form]
  from refused h1 have s1: "submitting (form p1)" "submitDisabled (render (form p1))"
      "?fire (PressSubmit (Fin 1700000000001)) p1 = Some p1"
    by blast+
  have t2: "thrown (Resolves (Some (Error ''bucket not found''))) = Some (Error ''bucket not found'')"
    by simp
  from refused h1 t2
  have f2: "?fire (UploadAnswers 0 (Resolves (Some (Error ''bucket not found'')))) p1 =
      Some (p1\<lparr>form := (form p1)\<lparr>submitting := False\<rparr>,
              flights := [],
              emitted := emitted p1 @
                [ConsoleError ''Submission error:'' (Error ''bucket not found''),
                 Alert ''Failed to submit. Check console for details.'',
                 SetSubmitting False]\<rparr>)"
    by blast
  have t3: "thrown (Resolves None) = None"
    by simp
  define row where "row =
      \<lparr> team_id = c_teamId c, map_number = c_mapNumber c,
        player1_kills = js_index (c_killsNums c) 0,
        player2_kills = js_index (c_killsNums c) 1,
        player3_kills = js_index (c_killsNums c) 2,
        placement_of = c_placement c,
        scoreboard_image_url = getPublicUrl example_backend (c_fileName c) \<rparr>"
  from accepted h1 t3
  have f3: "?fire (UploadAnswers 0 (Resolves None)) p1 =
      Some (p1\<lparr>flights := [AwaitingInsert],
              emitted := emitted p1 @
                [StorageGetPublicUrl ''scoreboards'' (c_fileName c),
                 TableInsert ''submissions'' row]\<rparr>)"
    unfolding row_def by blast
  define p3 where "p3 = p1\<lparr>flights := [AwaitingInsert],
              emitted := emitted p1 @
                [StorageGetPublicUrl ''scoreboards'' (c_fileName c),
                 TableInsert ''submissions'' row]\<rparr>"
  have h3: "flights p3 = [AwaitingInsert]" "submitting (form p3)"
    using s1(1) by (simp_all add: p3_def)
  from f3 have f3': "?fire (UploadAnswers 0 (Resolves None)) p1 = Some p3"
    by (simp add: p3_def)
  from run_then_fire[OF r1 f3'] have r3:
    "?run ((ready_actions @ [PressSubmit (Fin 1700000000000)]) @ [UploadAnswers 0 (Resolves None)])
       start_page = Some p3" .
  from one_submission_in_flight[OF r3, where answer = "Rejects (Error ''connection lost'')"
      and now = "Fin 1700000000001" and f = 108 and c = c and err = "Error []"
      and be = example_backend and s = filled_form] h3
  obtain p4 where f4: "?fire (InsertAnswers 0 (Rejects (Error ''connection lost''))) p3 = Some p4"
      "\<not> submitting (form p4)" "flights p4 = []"
    by blast
  have called: "backend_calls (snd (handleSubmit example_runtime example_backend (Fin 4)
      (Fin 1700000000000) filled_form)) \<noteq> []"
    by (simp add: submit_defs example_defs)
  from one_submission_in_flight[OF r0, where be = example_backend
      and now = "Fin 1700000000000" and s = filled_form and f = 108 and c = undefined
      and answer = "Resolves None" and err = "Error []"] called
  have twice: "set_submitting_calls (snd (handleSubmit example_runtime example_backend (Fin 4)
      (Fin 1700000000000) filled_form)) = [True, False]"
    by blast
  from r0 h0 f1' h1 s1 f2 f3' h3 f4 called twice show ?thesis
    by (intro exI[of _ p0] exI[of _ p1]
          exI[of _ "p1\<lparr>form := (form p1)\<lparr>submitting := False\<rparr>, flights := [],
              emitted := emitted p1 @
                [ConsoleError ''Submission error:'' (Error ''bucket not found''),
                 Alert ''Failed to submit. Check console for details.'',
                 SetSubmitting False]\<rparr>"]
          exI[of _ p3] exI[of _ p4] exI[of _ c]) simp
qed

section \<open>The map bar\<close>

text \<open>
  C7. The bar renders fifteen buttons, keyed 1 to 15 in this order. Clicking a button
  calls \<open>onSelectMap\<close> with the button's number, and a button has the class
  \<open>selected\<close> exactly when \<open>selectedMap\<close> is its number.
\<close>

theorem TopBar_buttons:
  "map key (TopBar selectedMap onSelectMap) = map (\<lambda>n. Fin (real n)) [1..<16]
   \<and> (\<forall>b \<in> set (TopBar selectedMap onSelectMap).
         onClick b () = onSelectMap (key b)
         \<and> (has_class ''selected'' b \<longleftrightarrow> strict_eq selectedMap (key b)))"
proof
  have shifted: "[1..<16] = map Suc [0..<15]"
    by (simp add: map_Suc_upt del: upt_rec_numeral)
  show "map key (TopBar selectedMap onSelectMap) = map (\<lambda>n. Fin (real n)) [1..<16]"
    unfolding shifted by (simp add: TopBar_def Let_def comp_def)
next
  show "\<forall>b \<in> set (TopBar selectedMap onSelectMap).
         onClick b () = onSelectMap (key b)
         \<and> (has_class ''selected'' b \<longleftrightarrow> strict_eq selectedMap (key b))"
  proof
    fix b
    assume "b \<in> set (TopBar selectedMap onSelectMap)"
    then obtain index where b: "b =
        \<lparr> key = Fin (real (index + 1)),
          className = ''map-button '' @
            (if strict_eq selectedMap (Fin (real (index + 1))) then ''selected'' else []),
          onClick = (\<lambda>_. onSelectMap (Fin (real (index + 1)))),
          button_type = ''button'',
          children = (''Map '', Fin (real (index + 1))) \<rparr>"
      unfolding TopBar_def Let_def by (auto simp del: upt_rec_numeral)
    show "onClick b () = onSelectMap (key b)
         \<and> (has_class ''selected'' b \<longleftrightarrow> strict_eq selectedMap (key b))"
      by (simp add: b has_class_def)
  qed
qed

theorem TopBar_buttons_witness:
  "TopBar (Fin 3) (\<lambda>n. n) ! 2 \<in> set (TopBar (Fin 3) (\<lambda>n. n))
   \<and> key (TopBar (Fin 3) (\<lambda>n. n) ! 2) = Fin 3
   \<and> onClick (TopBar (Fin 3) (\<lambda>n. n) ! 2) () = Fin 3
   \<and> has_class ''selected'' (TopBar (Fin 3) (\<lambda>n. n) ! 2)
   \<and> TopBar (Fin 3) (\<lambda>n. n) ! 3 \<in> set (TopBar (Fin 3) (\<lambda>n. n))
   \<and> key (TopBar (Fin 3) (\<lambda>n. n) ! 3) = Fin 4
   \<and> \<not> has_class ''selected'' (TopBar (Fin 3) (\<lambda>n. n) ! 3)"
proof -
  have len: "length (TopBar (Fin 3) (\<lambda>n. n)) = 15"
    by (simp add: TopBar_def)
  have third: "TopBar (Fin 3) (\<lambda>n. n) ! 2 \<in> set (TopBar (Fin 3) (\<lambda>n. n))"
    by (rule nth_mem) (simp add: len)
  have fourth: "TopBar (Fin 3) (\<lambda>n. n) ! 3 \<in> set (TopBar (Fin 3) (\<lambda>n. n))"
    by (rule nth_mem) (simp add: len)
  have keys: "key (TopBar (Fin 3) (\<lambda>n. n) ! 2) = Fin 3" "key (TopBar (Fin 3) (\<lambda>n. n) ! 3) = Fin 4"
    by (simp_all add: TopBar_def Let_def)
  from TopBar_buttons[of "Fin 3" "\<lambda>n. n"] third fourth keys show ?thesis
    by simp
qed

end
